theory Spec2Isabelle
  imports
    Main
    "HOL-Library.Char_ord"
    "HOL-Library.List_Lexorder"
    "HOL-Library.Sublist"
    "HOL-Library.AList"
begin

section \<open>JavaScript strings and numbers\<close>

text \<open>
  Strings are \<^typ>\<open>string\<close>: one \<^typ>\<open>char\<close> per code unit, which covers the
  Latin-1 range (HTTP header values and the data-model paths of the simulator).
  \<open>String.prototype.sort\<close>'s default order is the lexicographic order of the code
  units, which is the order of \<^typ>\<open>string\<close> given by the two library theories
  imported above.
\<close>

definition startsWith :: "string \<Rightarrow> string \<Rightarrow> bool" where
  "startsWith s p = prefix p s"

text \<open>\<open>s.indexOf(c, from)\<close> for a one-character needle: \<open>None\<close> is \<open>-1\<close>.\<close>

fun indexOf_from :: "string \<Rightarrow> char \<Rightarrow> nat \<Rightarrow> nat \<Rightarrow> nat option" where
  "indexOf_from [] c from i = None"
| "indexOf_from (x # xs) c from i =
     (if from \<le> i \<and> x = c then Some i else indexOf_from xs c from (Suc i))"

definition indexOf :: "string \<Rightarrow> char \<Rightarrow> nat \<Rightarrow> nat option" where
  "indexOf s c from = indexOf_from s c from 0"

text \<open>
  \<open>s.slice(k)\<close> with the result of \<open>indexOf\<close> as its argument: an index \<open>k\<close>
  drops \<open>k\<close> characters, and \<open>-1\<close> keeps the last character only.
\<close>

definition slice_from :: "string \<Rightarrow> nat option \<Rightarrow> string" where
  "slice_from s k = (case k of Some i \<Rightarrow> drop i s | None \<Rightarrow> drop (length s - 1) s)"

definition digit_char :: "nat \<Rightarrow> char" where
  "digit_char n = ''0123456789abcdef'' ! n"

text \<open>\<open>String(n)\<close> for a non-negative integer below \<open>10^21\<close>: its decimal digits.\<close>

fun String_nat :: "nat \<Rightarrow> string" where
  "String_nat n =
     (if n < 10 then [digit_char n] else String_nat (n div 10) @ [digit_char (n mod 10)])"

declare String_nat.simps [simp del]

text \<open>
  A counter that has been incremented from \<open>undefined\<close> is \<open>NaN\<close>: numbers that the
  code increments are \<^typ>\<open>nat option\<close>, with \<open>None\<close> for \<open>NaN\<close>.
\<close>

definition String_num :: "nat option \<Rightarrow> string" where
  "String_num n = (case n of Some k \<Rightarrow> String_nat k | None \<Rightarrow> ''NaN'')"

definition padStart :: "nat \<Rightarrow> char \<Rightarrow> string \<Rightarrow> string" where
  "padStart n c s = replicate (n - length s) c @ s"

definition toUpper_char :: "char \<Rightarrow> string" where
  "toUpper_char c =
     (let k = (of_char c :: nat) in
      if 97 \<le> k \<and> k \<le> 122 then [char_of (k - 32)]
      else if k = 223 then ''SS''
      else if 224 \<le> k \<and> k \<le> 254 \<and> k \<noteq> 247 then [char_of (k - 32)]
      else [c])"

text \<open>
  \<open>toUpperCase\<close> on Latin-1: the letters, and sharp s which becomes \<open>SS\<close>. The two
  characters whose upper case lies outside Latin-1 (micro sign, y with diaeresis) are
  left as they are; neither becomes an ASCII letter.
\<close>

definition toUpperCase :: "string \<Rightarrow> string" where
  "toUpperCase s = concat (map toUpper_char s)"

definition toLower_char :: "char \<Rightarrow> char" where
  "toLower_char c =
     (let k = (of_char c :: nat) in
      if 65 \<le> k \<and> k \<le> 90 then char_of (k + 32)
      else if 192 \<le> k \<and> k \<le> 222 \<and> k \<noteq> 215 then char_of (k + 32)
      else c)"

definition toLowerCase :: "string \<Rightarrow> string" where
  "toLowerCase s = map toLower_char s"

text \<open>The white space class \<open>\s\<close> of a regular expression, within Latin-1.\<close>

definition is_space :: "char \<Rightarrow> bool" where
  "is_space c = ((of_char c :: nat) \<in> {9, 10, 11, 12, 13, 32, 160})"

text \<open>The word class \<open>\w\<close>: ASCII letters, digits and the underscore.\<close>

definition is_word :: "char \<Rightarrow> bool" where
  "is_word c =
     (let k = (of_char c :: nat) in
      (48 \<le> k \<and> k \<le> 57) \<or> (65 \<le> k \<and> k \<le> 90) \<or> (97 \<le> k \<and> k \<le> 122) \<or> k = 95)"

text \<open>
  A case-insensitive test \<open>/^word\s+/i\<close>: the lower-cased ASCII letters of the word,
  then at least one white space. The result is the rest of the string after the white
  space, \<open>None\<close> when the expression does not match.
\<close>

definition ascii_lower :: "char \<Rightarrow> char" where
  "ascii_lower c =
     (let k = (of_char c :: nat) in if 65 \<le> k \<and> k \<le> 90 then char_of (k + 32) else c)"

definition match_scheme :: "string \<Rightarrow> string \<Rightarrow> string option" where
  "match_scheme word s =
     (let n = length word; r = drop n s in
      if map ascii_lower (take n s) = word \<and> r \<noteq> [] \<and> is_space (hd r)
      then Some (dropWhile is_space r) else None)"

text \<open>\<open>xs.join(sep)\<close> on an array of strings.\<close>

fun join :: "string \<Rightarrow> string list \<Rightarrow> string" where
  "join sep [] = []"
| "join sep [x] = x"
| "join sep (x # y # ys) = x @ sep @ join sep (y # ys)"

text \<open>A value that may be \<open>null\<close>, as a template literal renders it.\<close>

definition null_template :: "string option \<Rightarrow> string" where
  "null_template v = (case v of Some s \<Rightarrow> s | None \<Rightarrow> ''null'')"

section \<open>Parsed XML\<close>

text \<open>
  An element of a parsed document, as \<open>xmlParser.parseXml\<close> returns it: \<open>name\<close>,
  \<open>localName\<close>, \<open>text\<close>, its attributes (as \<open>xmlParser.parseAttrs\<close> lists them:
  local name and value) and \<open>children\<close>.
\<close>

datatype element =
  Element (el_name: string) (el_localName: string) (el_text: string)
    (el_attrs: "(string \<times> string) list") (el_children: "element list")

section \<open>The collaborators outside the sources\<close>

text \<open>
  The functions of the runtime and of the XML codec that the sources call but do not
  define are parameters of the model, and so are the values one run draws from the
  random generator and the clock:
  \<^item> \<open>md5\<close>: \<open>crypto.createHash("md5").update(data).digest("hex")\<close>;
  \<^item> \<open>base64\<close>: \<open>Buffer.from(s).toString("base64")\<close>;
  \<^item> \<open>encodeEntities\<close>, \<open>decodeEntities\<close>: the entity codec of \<open>xml-parser\<close> on
    strings, and \<open>encodeUndefined\<close>: what \<open>encodeEntities(undefined)\<close> returns,
    \<open>None\<close> when it throws;
  \<^item> \<open>parseXml\<close>: \<open>xmlParser.parseXml\<close>, \<open>None\<close> when it throws;
  \<^item> \<open>parseInt\<close>: \<open>Number.parseInt(x, 10)\<close> of a string or of \<open>undefined\<close>, \<open>None\<close>
    for \<open>NaN\<close>;
  \<^item> \<open>JSON_parse_Boolean\<close>: \<open>Boolean(JSON.parse(text))\<close>, \<open>None\<close> when \<open>JSON.parse\<close>
    throws;
  \<^item> \<open>url_path\<close>: \<open>pathname + search\<close> of \<open>new URL(url)\<close>, \<open>None\<close> when the
    constructor throws;
  \<^item> \<open>cnonce\<close>: \<open>crypto.randomBytes(16).toString("hex")\<close>;
  \<^item> \<open>requestId\<close>: \<open>Math.random().toString(36).slice(-8)\<close>;
  \<^item> \<open>clock\<close>: \<open>new Date().toISOString()\<close>, by the number of the reading within
    one run.
\<close>

record ext =
  md5 :: "string \<Rightarrow> string"
  base64 :: "string \<Rightarrow> string"
  encodeEntities :: "string \<Rightarrow> string"
  decodeEntities :: "string \<Rightarrow> string"
  encodeUndefined :: "string option"
  parseXml :: "string \<Rightarrow> element option"
  parseInt :: "string option \<Rightarrow> int option"
  JSON_parse_Boolean :: "string \<Rightarrow> bool option"
  url_path :: "string \<Rightarrow> string option"
  cnonce :: string
  requestId :: string
  clock :: "nat \<Rightarrow> string"

section \<open>service-auth.js\<close>

text \<open>
  The object \<open>digestParams\<close> is the list of its properties in the order the parser
  stored them; a property read is \<^const>\<open>map_of\<close>, and \<open>x || d\<close> on a property
  that is missing or empty is \<open>d\<close>.
\<close>

type_synonym digestParams = "(string \<times> string) list"

definition prop_or :: "digestParams \<Rightarrow> string \<Rightarrow> string \<Rightarrow> string" where
  "prop_or ps k d = (case map_of ps k of None \<Rightarrow> d | Some v \<Rightarrow> if v = [] then d else v)"

text \<open>The constant \<open>ncStr\<close> of \<open>generateDigestAuth\<close>: \<open>String(nc).padStart(8, "0")\<close>.\<close>

definition ncStr :: "nat option \<Rightarrow> string" where
  "ncStr nc = padStart 8 CHR ''0'' (String_num nc)"

definition generateDigestAuth ::
  "ext \<Rightarrow> string \<Rightarrow> string \<Rightarrow> string \<Rightarrow> string \<Rightarrow> digestParams \<Rightarrow> nat option \<Rightarrow> string" where
  "generateDigestAuth X username password meth uri dps nc =
     (let realm = prop_or dps ''realm'' '''';
          nonce = prop_or dps ''nonce'' '''';
          qop = prop_or dps ''qop'' '''';
          opaque = prop_or dps ''opaque'' '''';
          algorithm = prop_or dps ''algorithm'' ''MD5'';
          cn = cnonce X;
          ha1 = (if toUpperCase algorithm = ''MD5-SESS''
                 then md5 X (md5 X (username @ '':'' @ realm @ '':'' @ password)
                              @ '':'' @ nonce @ '':'' @ cn)
                 else md5 X (username @ '':'' @ realm @ '':'' @ password));
          ha2 = md5 X (meth @ '':'' @ uri);
          ncStr = ncStr nc;
          response = (if qop = ''auth'' \<or> qop = ''auth-int''
                      then md5 X (ha1 @ '':'' @ nonce @ '':'' @ ncStr @ '':'' @ cn
                                    @ '':'' @ qop @ '':'' @ ha2)
                      else md5 X (ha1 @ '':'' @ nonce @ '':'' @ ha2));
          authHeader = ''Digest username=\"'' @ username @ ''\", realm=\"'' @ realm
                       @ ''\", nonce=\"'' @ nonce @ ''\", uri=\"'' @ uri
                       @ ''\", response=\"'' @ response @ ''\"'';
          authHeader = (if algorithm \<noteq> [] then authHeader @ '', algorithm='' @ algorithm
                        else authHeader);
          authHeader = (if opaque \<noteq> [] then authHeader @ '', opaque=\"'' @ opaque @ ''\"''
                        else authHeader);
          authHeader = (if qop \<noteq> [] then authHeader @ '', qop='' @ qop @ '', nc='' @ ncStr
                                                  @ '', cnonce=\"'' @ cn @ ''\"''
                        else authHeader)
      in authHeader)"

subsection \<open>parseDigestHeader\<close>

text \<open>
  The expression \<open>/(\w+)=(?:"([^"]+)"|([^\s,]+))/g\<close>, tried at the start of a string:
  a maximal run of word characters, an equals sign, and then either a quoted value
  that is not empty and has its closing quote, or a run of characters other than white
  space and commas. The result is the key, the value (\<open>match[2] || match[3]\<close>) and the
  length of the match.
\<close>

definition quoted_value :: "string \<Rightarrow> (string \<times> nat) option" where
  "quoted_value v =
     (case v of
        [] \<Rightarrow> None
      | c # w \<Rightarrow>
          (let q = takeWhile (\<lambda>x. x \<noteq> CHR 0x22) w in
           if c = CHR 0x22 \<and> q \<noteq> [] \<and> length q < length w then Some (q, length q + 2)
           else None))"

definition token_value :: "string \<Rightarrow> (string \<times> nat) option" where
  "token_value v =
     (let tk = takeWhile (\<lambda>x. \<not> is_space x \<and> x \<noteq> CHR '','') v in
      if tk \<noteq> [] then Some (tk, length tk) else None)"

definition match_here :: "string \<Rightarrow> (string \<times> string \<times> nat) option" where
  "match_here s =
     (let key = takeWhile is_word s in
      if key = [] then None
      else
        (case drop (length key) s of
           [] \<Rightarrow> None
         | c # v \<Rightarrow>
             if c = CHR ''='' then
               (case quoted_value v of
                  Some (q, n) \<Rightarrow> Some (key, q, length key + 1 + n)
                | None \<Rightarrow>
                    (case token_value v of
                       Some (tk, n) \<Rightarrow> Some (key, tk, length key + 1 + n)
                     | None \<Rightarrow> None))
             else None))"

text \<open>
  The \<open>while\<close> loop over \<open>regex.exec\<close>: the leftmost match from \<open>lastIndex\<close> on is
  taken, its pair is stored, and the search goes on behind the match. \<open>skip\<close> counts the
  characters of the last match that are still to be passed.
\<close>

fun scan :: "string \<Rightarrow> nat \<Rightarrow> digestParams \<Rightarrow> digestParams" where
  "scan [] skip ps = ps"
| "scan (c # cs) skip ps =
     (if skip > 0 then scan cs (skip - 1) ps
      else
        (case match_here (c # cs) of
           Some (k, v, n) \<Rightarrow> scan cs (n - 1) (AList.update k v ps)
         | None \<Rightarrow> scan cs 0 ps))"

definition parseDigestHeader :: "string \<Rightarrow> digestParams" where
  "parseDigestHeader header =
     scan (case match_scheme ''digest'' header of Some r \<Rightarrow> r | None \<Rightarrow> header) 0 []"

text \<open>
  The specification's wording of the same field, for comparison: "zero-padded 8-hex of
  nonceCount".
\<close>

fun hex_nat :: "nat \<Rightarrow> string" where
  "hex_nat n =
     (if n < 16 then [digit_char n] else hex_nat (n div 16) @ [digit_char (n mod 16)])"

declare hex_nat.simps [simp del]

definition spec_nc :: "nat \<Rightarrow> string" where
  "spec_nc n = padStart 8 CHR ''0'' (hex_nat n)"

section \<open>Errors, XML and the device\<close>

text \<open>
  An exception ends the run of the function that throws; what the function had written
  to the device before stays written. A function that can throw returns the state it
  reached together with the error, if any.
\<close>

datatype error = TypeError | SyntaxError | Error string

text \<open>
  \<open>xmlUtils.node(key, attrs, value)\<close> renders markup; \<open>xml-utils\<close> is not among the
  sources, and the markup is kept as the tree of the calls: \<open>Node key attrs children\<close>,
  with \<open>Text s\<close> for a string given as content.
\<close>

datatype xml = Node string "(string \<times> string) list" "xml list" | Text string

text \<open>
  The device is one JavaScript object. Its properties are the data-model paths, each
  holding an array \<open>[writable, value, type]\<close> (an object node holds \<open>[true]\<close> only:
  \<open>None\<close> is a missing element), kept in \<open>params\<close> in insertion order, and the private
  fields, whose names start with an underscore, kept as fields of the record. A flag is
  \<open>False\<close> when the property is false or missing, \<open>username\<close> and \<open>password\<close> are empty
  when missing, \<open>nonceCount\<close> is \<open>None\<close> when it is missing or \<open>NaN\<close>.
\<close>

record param =
  writable :: bool
  pvalue :: "string option"
  ptype :: "string option"

record device =
  params :: "(string \<times> param) list"
  sortedPaths :: "string list option"
  pendingReboot :: bool
  firmwareUpgrade :: bool
  transferCompleteSession :: bool
  downloadInProgress :: bool
  activeDownloadRequest :: bool
  digestParams :: "digestParams option"
  nonceCount :: "nat option"
  cookie :: "string list option"
  username :: string
  password :: string

definition String_bool :: "bool \<Rightarrow> string" where
  "String_bool b = (if b then ''true'' else ''false'')"

section \<open>methods.js: the parameter handlers\<close>

definition ignore :: "string list" where
  "ignore = [''DeviceID'', ''Downloads'', ''Tags'', ''Events'', ''Reboot'', ''FactoryReset'',
             ''VirtualParameters'']"

text \<open>
  \<open>Object.keys(device).filter(...).sort()\<close>. The private fields are keys of the object
  too; the filter drops every key that starts with an underscore.
\<close>

definition sortedPaths_of :: "(string \<times> param) list \<Rightarrow> string list" where
  "sortedPaths_of ps =
     sort (filter (\<lambda>p. \<not> startsWith p ''_'' \<and> takeWhile (\<lambda>c. c \<noteq> CHR ''.'') p \<notin> set ignore)
                  (map fst ps))"

definition getSortedPaths :: "device \<Rightarrow> device \<times> string list" where
  "getSortedPaths d =
     (case sortedPaths d of
        Some ps \<Rightarrow> (d, ps)
      | None \<Rightarrow> (d\<lparr>sortedPaths := Some (sortedPaths_of (params d))\<rparr>, sortedPaths_of (params d)))"

subsection \<open>GetParameterNames\<close>

fun gpn_args ::
  "ext \<Rightarrow> element list \<Rightarrow> string option \<Rightarrow> bool \<Rightarrow> error + (string option \<times> bool)" where
  "gpn_args X [] parameterPath nextLevel = Inr (parameterPath, nextLevel)"
| "gpn_args X (c # cs) parameterPath nextLevel =
     (if el_name c = ''ParameterPath'' then gpn_args X cs (Some (el_text c)) nextLevel
      else if el_name c = ''NextLevel'' then
        (case JSON_parse_Boolean X (el_text c) of
           None \<Rightarrow> Inl SyntaxError
         | Some b \<Rightarrow> gpn_args X cs parameterPath b)
      else gpn_args X cs parameterPath nextLevel)"

text \<open>\<open>p.startsWith(x)\<close> where \<open>x\<close> may be \<open>undefined\<close>, which is read as a string.\<close>

definition startsWith_arg :: "string \<Rightarrow> string option \<Rightarrow> bool" where
  "startsWith_arg p x = startsWith p (case x of Some s \<Rightarrow> s | None \<Rightarrow> ''undefined'')"

text \<open>The test of the loop taken when \<open>nextLevel\<close> holds.\<close>

definition nextLevel_keep :: "string \<Rightarrow> string \<Rightarrow> bool" where
  "nextLevel_keep parameterPath p =
     (startsWith p parameterPath \<and> length p > length parameterPath + 1 \<and>
      (case indexOf p CHR ''.'' (length parameterPath + 1) of
         None \<Rightarrow> True
       | Some i \<Rightarrow> i = length p - 1))"

text \<open>
  The two loops that fill \<open>parameterList\<close>. Without a \<open>ParameterPath\<close> element the
  first loop reads \<open>parameterPath.length\<close> of \<open>undefined\<close> at the first path that starts
  with the string \<open>undefined\<close>.
\<close>

definition select_names :: "string option \<Rightarrow> bool \<Rightarrow> string list \<Rightarrow> error + string list" where
  "select_names parameterPath nextLevel parameterNames =
     (if nextLevel then
        (case parameterPath of
           Some pp \<Rightarrow> Inr (filter (nextLevel_keep pp) parameterNames)
         | None \<Rightarrow>
             if list_ex (\<lambda>p. startsWith p ''undefined'') parameterNames then Inl TypeError
             else Inr [])
      else Inr (filter (\<lambda>p. startsWith_arg p parameterPath) parameterNames))"

fun info_structs :: "(string \<times> param) list \<Rightarrow> string list \<Rightarrow> error + xml list" where
  "info_structs ps [] = Inr []"
| "info_structs ps (p # rest) =
     (case map_of ps p of
        None \<Rightarrow> Inl TypeError
      | Some e \<Rightarrow>
          (case info_structs ps rest of
             Inl err \<Rightarrow> Inl err
           | Inr r \<Rightarrow>
               Inr (Node ''ParameterInfoStruct'' []
                      [Node ''Name'' [] [Text p],
                       Node ''Writable'' [] [Text (String_bool (writable e))]] # r)))"

text \<open>The list \<open>parameterList\<close> of \<open>GetParameterNames\<close>, before it is rendered.\<close>

definition parameterList :: "ext \<Rightarrow> device \<Rightarrow> element \<Rightarrow> error + string list" where
  "parameterList X d request =
     (case gpn_args X (el_children request) None False of
        Inl e \<Rightarrow> Inl e
      | Inr (parameterPath, nextLevel) \<Rightarrow>
          select_names parameterPath nextLevel (snd (getSortedPaths d)))"

definition GetParameterNames :: "ext \<Rightarrow> device \<Rightarrow> element \<Rightarrow> device \<times> (error + xml)" where
  "GetParameterNames X d request =
     (let d1 = fst (getSortedPaths d) in
      case parameterList X d request of
        Inl e \<Rightarrow> (d1, Inl e)
      | Inr names \<Rightarrow>
          (case info_structs (params d1) names of
             Inl e \<Rightarrow> (d1, Inl e)
           | Inr structs \<Rightarrow>
               (d1, Inr (Node ''cwmp:GetParameterNamesResponse'' []
                           [Node ''ParameterList''
                              [(''soap-enc:arrayType'',
                                ''cwmp:ParameterInfoStruct['' @ String_nat (length names) @ '']'')]
                              structs]))))"

subsection \<open>GetParameterValues\<close>

text \<open>
  \<open>xmlParser.encodeEntities\<close> applied to an element of a parameter's array, which may
  be \<open>undefined\<close>.
\<close>

definition encode :: "ext \<Rightarrow> string option \<Rightarrow> string option" where
  "encode X v = (case v of Some s \<Rightarrow> Some (encodeEntities X s) | None \<Rightarrow> encodeUndefined X)"

text \<open>A value that a template or an attribute turns into a string.\<close>

definition template :: "string option \<Rightarrow> string" where
  "template v = (case v of Some s \<Rightarrow> s | None \<Rightarrow> ''undefined'')"

fun value_structs ::
  "ext \<Rightarrow> (string \<times> param) list \<Rightarrow> element list \<Rightarrow> error + xml list" where
  "value_structs X ps [] = Inr []"
| "value_structs X ps (p # rest) =
     (case map_of ps (el_text p) of
        None \<Rightarrow> Inl TypeError
      | Some e \<Rightarrow>
          (case encode X (pvalue e) of
             None \<Rightarrow> Inl TypeError
           | Some v \<Rightarrow>
               (case value_structs X ps rest of
                  Inl err \<Rightarrow> Inl err
                | Inr r \<Rightarrow>
                    Inr (Node ''ParameterValueStruct'' []
                           [Node ''Name'' [] [Text (el_text p)],
                            Node ''Value'' [(''xsi:type'', template (ptype e))] [Text v]] # r))))"

definition GetParameterValues ::
  "ext \<Rightarrow> device \<Rightarrow> element \<Rightarrow> device \<times> (error + xml)" where
  "GetParameterValues X d request =
     (case el_children request of
        [] \<Rightarrow> (d, Inl TypeError)
      | c # _ \<Rightarrow>
          (case value_structs X (params d) (el_children c) of
             Inl e \<Rightarrow> (d, Inl e)
           | Inr structs \<Rightarrow>
               (d, Inr (Node ''cwmp:GetParameterValuesResponse'' []
                          [Node ''ParameterList''
                             [(''soap-enc:arrayType'',
                               ''cwmp:ParameterValueStruct[''
                               @ String_nat (length (el_children c)) @ '']'')]
                             structs]))))"

subsection \<open>SetParameterValues\<close>

text \<open>The inner loop: the last \<open>Name\<close> and the last \<open>Value\<close> child count.\<close>

fun spv_fields ::
  "element list \<Rightarrow> string option \<Rightarrow> element option \<Rightarrow> string option \<times> element option" where
  "spv_fields [] name val = (name, val)"
| "spv_fields (c # cs) name val =
     (if el_localName c = ''Name'' then spv_fields cs (Some (el_text c)) val
      else if el_localName c = ''Value'' then spv_fields cs name (Some c)
      else spv_fields cs name val)"

text \<open>
  The two assignments of the outer loop's body. The first has been made when the second
  throws for want of a \<open>type\<close> attribute. The name is looked up among the parameters of
  the data model, whose entries are the arrays of writable flag, value and type. The
  private fields of the device are kept apart from them in the model: a name that is
  one of these fields is read here as a missing key, where the code assigns to the
  elements 1 and 2 of a field that holds an array or an object (as \<open>_sortedPaths\<close>,
  \<open>_cookie\<close>, \<open>_digestParams\<close> and \<open>_activeDownloadRequest\<close> do once they are set)
  and throws on a field that holds \<open>null\<close>, a string, a number or a boolean.
\<close>

definition setParameterValue ::
  "ext \<Rightarrow> (string \<times> param) list \<Rightarrow> element \<Rightarrow> (string \<times> param) list \<times> error option" where
  "setParameterValue X ps p =
     (case spv_fields (el_children p) None None of (name, val) \<Rightarrow>
        (case map_of ps (template name) of
           None \<Rightarrow> (ps, Some TypeError)
         | Some e \<Rightarrow>
             (case val of
                None \<Rightarrow> (ps, Some TypeError)
              | Some v \<Rightarrow>
                  (let e1 = e\<lparr>pvalue := Some (decodeEntities X (el_text v))\<rparr>;
                       ps1 = AList.update (template name) e1 ps
                   in case find (\<lambda>a. fst a = ''type'') (el_attrs v) of
                        None \<Rightarrow> (ps1, Some TypeError)
                      | Some a \<Rightarrow>
                          (AList.update (template name) (e1\<lparr>ptype := Some (snd a)\<rparr>) ps1,
                           None)))))"

fun setParameterValues ::
  "ext \<Rightarrow> (string \<times> param) list \<Rightarrow> element list \<Rightarrow> (string \<times> param) list \<times> error option" where
  "setParameterValues X ps [] = (ps, None)"
| "setParameterValues X ps (p # rest) =
     (case setParameterValue X ps p of
        (ps1, Some e) \<Rightarrow> (ps1, Some e)
      | (ps1, None) \<Rightarrow> setParameterValues X ps1 rest)"

definition SetParameterValues :: "ext \<Rightarrow> device \<Rightarrow> element \<Rightarrow> device \<times> (error + xml)" where
  "SetParameterValues X d request =
     (case el_children request of
        [] \<Rightarrow> (d, Inl TypeError)
      | c # _ \<Rightarrow>
          (case setParameterValues X (params d) (el_children c) of
             (ps, Some e) \<Rightarrow> (d\<lparr>params := ps\<rparr>, Inl e)
           | (ps, None) \<Rightarrow>
               (d\<lparr>params := ps\<rparr>,
                Inr (Node ''cwmp:SetParameterValuesResponse'' []
                       [Node ''Status'' [] [Text ''0'']]))))"

subsection \<open>AddObject\<close>

lemma String_nat_bound: "n < 10 ^ length (String_nat n)"
proof (induction n rule: String_nat.induct)
  case (1 n)
  show ?case
  proof (cases "n < 10")
    case True
    then show ?thesis by (subst String_nat.simps) simp
  next
    case False
    from 1[OF False] have "n div 10 < 10 ^ length (String_nat (n div 10))" .
    then have "n < 10 * 10 ^ length (String_nat (n div 10))" by linarith
    with False show ?thesis by (subst String_nat.simps) simp
  qed
qed

lemma map_of_key_length:
  "map_of ps k = Some v \<Longrightarrow> length k \<le> sum_list (map (length \<circ> fst) ps)"
  by (induction ps) (auto split: if_splits)

text \<open>
  The \<open>while\<close> loop that looks for a free instance number. A path that is present is
  no longer than all paths together, and a number is below ten to the count of its
  digits, so the loop ends.
\<close>

function findInstance :: "(string \<times> param) list \<Rightarrow> string \<Rightarrow> nat \<Rightarrow> nat" where
  "findInstance ps objectName instanceNumber =
     (if map_of ps (objectName @ String_nat instanceNumber @ ''.'') \<noteq> None
      then findInstance ps objectName (instanceNumber + 1) else instanceNumber)"
  by pat_completeness auto
termination
proof (relation "measure (\<lambda>(ps, objectName, i). 10 ^ sum_list (map (length \<circ> fst) ps) - i)")
  show "wf (measure (\<lambda>(ps, objectName, i). 10 ^ sum_list (map (length \<circ> fst) ps) - i))"
    by simp
next
  fix ps :: "(string \<times> param) list" and objectName :: string and i :: nat
  assume "map_of ps (objectName @ String_nat i @ ''.'') \<noteq> None"
  then obtain v where "map_of ps (objectName @ String_nat i @ ''.'') = Some v" by auto
  then have "length (objectName @ String_nat i @ ''.'') \<le> sum_list (map (length \<circ> fst) ps)"
    by (rule map_of_key_length)
  then have le: "length (String_nat i) \<le> sum_list (map (length \<circ> fst) ps)" by simp
  have "i < (10::nat) ^ length (String_nat i)" by (rule String_nat_bound)
  also have "\<dots> \<le> 10 ^ sum_list (map (length \<circ> fst) ps)"
    using le by (intro power_increasing) auto
  finally have "i < 10 ^ sum_list (map (length \<circ> fst) ps)" .
  then show "((ps, objectName, i + 1), (ps, objectName, i))
        \<in> measure (\<lambda>(ps, objectName, i). 10 ^ sum_list (map (length \<circ> fst) ps) - i)"
    by simp
qed

declare findInstance.simps [simp del]

text \<open>
  The object literal \<open>defaultValues\<close>, read with \<open>defaultValues[type] || ""\<close>. (A type
  that names a property of \<open>Object.prototype\<close> is not a type of the data model and is
  read as any other unknown type here.)
\<close>

definition defaultValues :: "string option \<Rightarrow> string" where
  "defaultValues t =
     (if t = Some ''xsd:boolean'' then ''false''
      else if t = Some ''xsd:int'' then ''0''
      else if t = Some ''xsd:unsignedInt'' then ''0''
      else if t = Some ''xsd:dateTime'' then ''0001-01-01T00:00:00Z''
      else [])"

text \<open>The path \<open>n\<close> that the loop of \<open>AddObject\<close> builds from a path \<open>p\<close>.\<close>

definition instancePath :: "string \<Rightarrow> nat \<Rightarrow> string \<Rightarrow> string" where
  "instancePath objectName instanceNumber p =
     objectName @ String_nat instanceNumber
     @ slice_from p (indexOf p CHR ''.'' (length objectName))"

definition newLeaf :: "param \<Rightarrow> param" where
  "newLeaf e = \<lparr>writable = writable e, pvalue = Some (defaultValues (ptype e)), ptype = ptype e\<rparr>"

fun addLeaves ::
  "string \<Rightarrow> nat \<Rightarrow> string list \<Rightarrow> (string \<times> param) list
   \<Rightarrow> (string \<times> param) list \<times> error option" where
  "addLeaves objectName i [] ps = (ps, None)"
| "addLeaves objectName i (p # rest) ps =
     (if startsWith p objectName \<and> length p > length objectName then
        (if map_of ps (instancePath objectName i p) = None then
           (case map_of ps p of
              None \<Rightarrow> (ps, Some TypeError)
            | Some e \<Rightarrow>
                addLeaves objectName i rest
                  (AList.update (instancePath objectName i p) (newLeaf e) ps))
         else addLeaves objectName i rest ps)
      else addLeaves objectName i rest ps)"

definition objectNode :: param where
  "objectNode = \<lparr>writable = True, pvalue = None, ptype = None\<rparr>"

definition AddObject :: "device \<Rightarrow> element \<Rightarrow> device \<times> (error + xml)" where
  "AddObject d request =
     (case el_children request of
        [] \<Rightarrow> (d, Inl TypeError)
      | c # _ \<Rightarrow>
          (let objectName = el_text c;
               instanceNumber = findInstance (params d) objectName 1;
               d1 = d\<lparr>params := AList.update (objectName @ String_nat instanceNumber @ ''.'')
                                   objectNode (params d)\<rparr>;
               d2 = fst (getSortedPaths d1)
           in case addLeaves objectName instanceNumber (snd (getSortedPaths d1)) (params d2) of
                (ps, Some e) \<Rightarrow> (d2\<lparr>params := ps\<rparr>, Inl e)
              | (ps, None) \<Rightarrow>
                  (d2\<lparr>params := ps, sortedPaths := None\<rparr>,
                   Inr (Node ''cwmp:AddObjectResponse'' []
                          [Node ''InstanceNumber'' [] [Text (String_nat instanceNumber)],
                           Node ''Status'' [] [Text ''0'']]))))"

subsection \<open>DeleteObject\<close>

text \<open>
  The loop runs over every key of the object, the private fields included: a private
  field whose name starts with \<open>objectName\<close> is deleted with the paths.
\<close>

definition DeleteObject :: "device \<Rightarrow> element \<Rightarrow> device \<times> (error + xml)" where
  "DeleteObject d request =
     (case el_children request of
        [] \<Rightarrow> (d, Inl TypeError)
      | c # _ \<Rightarrow>
          (let objectName = el_text c; gone = (\<lambda>k. startsWith k objectName) in
           (d\<lparr>params := filter (\<lambda>kv. \<not> gone (fst kv)) (params d),
              sortedPaths := None,
              pendingReboot := (\<not> gone ''_pendingReboot'' \<and> pendingReboot d),
              firmwareUpgrade := (\<not> gone ''_firmwareUpgrade'' \<and> firmwareUpgrade d),
              transferCompleteSession :=
                (\<not> gone ''_transferCompleteSession'' \<and> transferCompleteSession d),
              downloadInProgress := (\<not> gone ''_downloadInProgress'' \<and> downloadInProgress d),
              activeDownloadRequest :=
                (\<not> gone ''_activeDownloadRequest'' \<and> activeDownloadRequest d),
              digestParams := (if gone ''_digestParams'' then None else digestParams d),
              nonceCount := (if gone ''_nonceCount'' then None else nonceCount d),
              cookie := (if gone ''_cookie'' then None else cookie d),
              username := (if gone ''_username'' then [] else username d),
              password := (if gone ''_password'' then [] else password d)\<rparr>,
            Inr (Node ''cwmp:DeleteObjectResponse'' [] [Node ''Status'' [] [Text ''0'']]))))"

section \<open>The state of the process\<close>

text \<open>
  A record of the queue \<open>pendingTransfers\<close>; \<open>startTime\<close> is the \<open>Date\<close> by its
  \<open>toISOString()\<close>.
\<close>

record transfer =
  t_commandKey :: "string option"
  t_startTime :: string
  faultCode :: string
  faultString :: string

text \<open>
  The object \<open>dwInfo\<close> of a download; \<open>None\<close> is \<open>null\<close> or a missing property.
\<close>

record dwInfo =
  attempts :: nat
  commandKey :: "string option"
  url :: "string option"
  fileType :: "string option"
  dw_username :: "string option"
  dw_password :: "string option"
  authHeader :: "string option"
  cookies :: "string list option"

datatype urlObj = Http | Https

text \<open>
  A response as the callbacks read it: the status code, the headers
  \<open>www-authenticate\<close> and \<open>set-cookie\<close>, and the body once it has been read.
\<close>

record response =
  statusCode :: nat
  www_authenticate :: "string option"
  set_cookie :: "string list option"
  body :: string

text \<open>
  Callbacks are data: the callback that \<open>sendRequest\<close> is given, and the function
  that \<open>setTimeout\<close> is given.
\<close>

datatype callback = To_cpeRequest | To_handleMethod | To_destroy

datatype timer =
    StartSession "string option"
  | Resume_accepting
  | Boot_after_upgrade
  | Kill_process

text \<open>
  A request posted to the ACS. The body is the argument \<open>xml\<close> of \<open>sendRequest\<close>
  (\<open>None\<close> is \<open>null\<close>, sent as the empty body); the \<open>Content-Length\<close> and
  \<open>Content-Type\<close> headers follow from it and are not listed.
\<close>

record post =
  post_body :: "xml option"
  Authorization :: string
  Cookie :: "string list option"

text \<open>
  What the process does to the outside, in order: a request posted to the ACS with the
  callback for its response; \<open>httpAgent.destroy()\<close>; a \<open>GET\<close> of the download worker
  with its headers and the \<open>dwInfo\<close> its callbacks hold; \<open>request.destroy()\<close> of such a
  request; \<open>res.resume()\<close>; \<open>process.kill\<close>; a connection request that is refused or
  answered.
\<close>

datatype effect =
    Posted post callback
  | Agent_destroyed
  | Get urlObj string "(string \<times> string) list" dwInfo
  | Request_destroyed
  | Resumed
  | Process_killed
  | Socket_destroyed
  | Answered

text \<open>
  The module variables of the simulator, the queue of \<open>methods.js\<close>, the timers that
  are set (handle, delay in milliseconds as given to \<open>setTimeout\<close>, with \<open>None\<close> for
  \<open>NaN\<close>, and function) and the effects so far. \<open>timeout\<close> is a number of milliseconds
  and \<open>path\<close> is \<open>requestOptions.path\<close>.
\<close>

record sim =
  device :: device
  nextInformTimeout :: "nat option"
  pendingInform :: bool
  acceptConnections :: bool
  timeout :: nat
  path :: string
  pendingTransfers :: "transfer list"
  timers :: "(nat \<times> int option \<times> timer) list"
  timerCount :: nat
  wire :: "effect list"

definition setTimeout :: "sim \<Rightarrow> timer \<Rightarrow> int option \<Rightarrow> sim" where
  "setTimeout s f ms =
     s\<lparr>timers := timers s @ [(timerCount s, ms, f)], timerCount := Suc (timerCount s)\<rparr>"

definition clearTimeout :: "sim \<Rightarrow> nat \<Rightarrow> sim" where
  "clearTimeout s h = s\<lparr>timers := filter (\<lambda>t. fst t \<noteq> h) (timers s)\<rparr>"

definition emit :: "sim \<Rightarrow> effect \<Rightarrow> sim" where
  "emit s e = s\<lparr>wire := wire s @ [e]\<rparr>"

section \<open>methods.js: Inform and the transfers\<close>

definition INFORM_PARAMS :: "string list" where
  "INFORM_PARAMS =
     [''Device.DeviceInfo.SpecVersion'',
      ''InternetGatewayDevice.DeviceInfo.SpecVersion'',
      ''Device.DeviceInfo.HardwareVersion'',
      ''InternetGatewayDevice.DeviceInfo.HardwareVersion'',
      ''Device.DeviceInfo.SoftwareVersion'',
      ''InternetGatewayDevice.DeviceInfo.SoftwareVersion'',
      ''Device.DeviceInfo.ProvisioningCode'',
      ''InternetGatewayDevice.DeviceInfo.ProvisioningCode'',
      ''Device.ManagementServer.ParameterKey'',
      ''InternetGatewayDevice.ManagementServer.ParameterKey'',
      ''Device.ManagementServer.ConnectionRequestURL'',
      ''InternetGatewayDevice.ManagementServer.ConnectionRequestURL'',
      ''Device.WANDevice.1.WANConnectionDevice.1.WANPPPConnection.1.ExternalIPAddress'',
      ''InternetGatewayDevice.WANDevice.1.WANConnectionDevice.1.WANPPPConnection.1.ExternalIPAddress'',
      ''Device.WANDevice.1.WANConnectionDevice.1.WANIPConnection.1.ExternalIPAddress'',
      ''InternetGatewayDevice.WANDevice.1.WANConnectionDevice.1.WANIPConnection.1.ExternalIPAddress'']"

definition transferCompleteDelayMs :: int where
  "transferCompleteDelayMs = 500"

definition sessionFactoryResetDelayMs :: int where
  "sessionFactoryResetDelayMs = 500"

definition validFileTypes :: "string list" where
  "validFileTypes =
     [''1 Firmware Upgrade Image'', ''2 Web Content'', ''3 Vendor Configuration File'',
      ''4 Tone File'', ''5 Ringer File'']"

text \<open>The entry of the first of the keys that the device has.\<close>

fun first_entry :: "(string \<times> param) list \<Rightarrow> string list \<Rightarrow> param option" where
  "first_entry ps [] = None"
| "first_entry ps (k # ks) =
     (case map_of ps k of Some e \<Rightarrow> Some e | None \<Rightarrow> first_entry ps ks)"

text \<open>One of the four \<open>if\<close> chains that fill \<open>DeviceId\<close>.\<close>

definition deviceIdNode ::
  "ext \<Rightarrow> (string \<times> param) list \<Rightarrow> string \<Rightarrow> string list \<Rightarrow> error + xml" where
  "deviceIdNode X ps tag keys =
     (case first_entry ps keys of
        None \<Rightarrow> Inr (Text [])
      | Some e \<Rightarrow>
          (case encode X (pvalue e) of
             None \<Rightarrow> Inl TypeError
           | Some v \<Rightarrow> Inr (Node tag [] [Text v])))"

text \<open>\<open>event.split(",")\<close>.\<close>

fun split_comma :: "string \<Rightarrow> string list" where
  "split_comma [] = [[]]"
| "split_comma (c # cs) =
     (if c = CHR '','' then [] # split_comma cs
      else (case split_comma cs of [] \<Rightarrow> [[c]] | x # xs \<Rightarrow> (c # x) # xs))"

text \<open>
  The list \<open>splitEvents\<close> (\<open>None\<close> is the element \<open>null\<close>) and the event structs made
  from it, with \<open>ev || "2 PERIODIC"\<close> as the code.
\<close>

definition splitEvents :: "string option \<Rightarrow> string option list" where
  "splitEvents event =
     (case event of Some e \<Rightarrow> map Some (split_comma e) | None \<Rightarrow> [None])"

definition eventCode :: "string option \<Rightarrow> string" where
  "eventCode ev = (case ev of None \<Rightarrow> ''2 PERIODIC'' | Some e \<Rightarrow> if e = [] then ''2 PERIODIC'' else e)"

definition eventStruct :: "string option \<Rightarrow> xml list" where
  "eventStruct event =
     map (\<lambda>ev. Node ''EventStruct'' []
                  [Node ''EventCode'' [] [Text (eventCode ev)], Node ''CommandKey'' [] []])
         (splitEvents event)"

fun informParams :: "ext \<Rightarrow> (string \<times> param) list \<Rightarrow> string list \<Rightarrow> error + xml list" where
  "informParams X ps [] = Inr []"
| "informParams X ps (p # rest) =
     (case map_of ps p of
        None \<Rightarrow> informParams X ps rest
      | Some e \<Rightarrow>
          (case encode X (pvalue e) of
             None \<Rightarrow> Inl TypeError
           | Some v \<Rightarrow>
               (case informParams X ps rest of
                  Inl err \<Rightarrow> Inl err
                | Inr r \<Rightarrow>
                    Inr (Node ''ParameterValueStruct'' []
                           [Node ''Name'' [] [Text p],
                            Node ''Value'' [(''xsi:type'', template (ptype e))] [Text v]] # r))))"

text \<open>
  The element \<open>cwmp:TransferComplete\<close> for a record of the queue, built alike in
  \<open>inform\<close> and in \<open>cpeRequest\<close>; \<open>now\<close> is the reading of the clock for
  \<open>CompleteTime\<close>.
\<close>

definition transferComplete :: "ext \<Rightarrow> string \<Rightarrow> transfer \<Rightarrow> xml" where
  "transferComplete X now t =
     Node ''cwmp:TransferComplete'' []
       ([Node ''CommandKey'' []
           [Text (encodeEntities X (case t_commandKey t of Some k \<Rightarrow> k | None \<Rightarrow> []))],
         Node ''StartTime'' [] [Text (t_startTime t)],
         Node ''CompleteTime'' [] [Text now]]
        @ (if faultCode t \<noteq> [] \<and> faultCode t \<noteq> ''0''
           then [Node ''FaultStruct'' []
                   [Node ''FaultCode'' [] [Text (faultCode t)],
                    Node ''FaultString'' [] [Text (encodeEntities X (faultString t))]]]
           else []))"

text \<open>
  \<open>inform\<close>, as \<open>startSession\<close> calls it: the result is the state and the element
  given to the callback, or the error thrown before the queue is touched.
\<close>

definition inform :: "ext \<Rightarrow> sim \<Rightarrow> string option \<Rightarrow> sim \<times> (error + xml)" where
  "inform X s event =
     (let ps = params (device s) in
      case deviceIdNode X ps ''Manufacturer''
             [''DeviceID.Manufacturer'', ''Device.DeviceInfo.Manufacturer'',
              ''InternetGatewayDevice.DeviceInfo.Manufacturer''] of
        Inl e \<Rightarrow> (s, Inl e)
      | Inr manufacturer \<Rightarrow>
      (case deviceIdNode X ps ''OUI''
             [''DeviceID.OUI'', ''Device.DeviceInfo.ManufacturerOUI'',
              ''InternetGatewayDevice.DeviceInfo.ManufacturerOUI''] of
        Inl e \<Rightarrow> (s, Inl e)
      | Inr oui \<Rightarrow>
      (case deviceIdNode X ps ''ProductClass''
             [''DeviceID.ProductClass'', ''Device.DeviceInfo.ProductClass'',
              ''InternetGatewayDevice.DeviceInfo.ProductClass''] of
        Inl e \<Rightarrow> (s, Inl e)
      | Inr productClass \<Rightarrow>
      (case deviceIdNode X ps ''SerialNumber''
             [''DeviceID.SerialNumber'', ''Device.DeviceInfo.SerialNumber'',
              ''InternetGatewayDevice.DeviceInfo.SerialNumber''] of
        Inl e \<Rightarrow> (s, Inl e)
      | Inr serialNumber \<Rightarrow>
      (case informParams X ps INFORM_PARAMS of
        Inl e \<Rightarrow> (s, Inl e)
      | Inr parameters \<Rightarrow>
          (let informChildren =
                 [Node ''DeviceId'' [] [manufacturer, oui, productClass, serialNumber],
                  Node ''Event'' [(''soap-enc:arrayType'', ''cwmp:EventStruct[1]'')]
                    (eventStruct event),
                  Node ''MaxEnvelopes'' [] [Text ''1''],
                  Node ''CurrentTime'' [] [Text (clock X 0)],
                  Node ''RetryCount'' [] [Text ''0''],
                  Node ''ParameterList''
                    [(''soap-enc:arrayType'',
                      ''cwmp:ParameterValueStruct['' @ String_nat (length INFORM_PARAMS) @ '']'')]
                    parameters]
           in case pendingTransfers s of
                [] \<Rightarrow> (s, Inr (Node ''cwmp:Inform'' [] informChildren))
              | pendingTransfer # rest \<Rightarrow>
                  (s\<lparr>pendingTransfers := rest,
                     device := (device s)\<lparr>transferCompleteSession := True\<rparr>\<rparr>,
                   Inr (Node ''cwmp:Inform'' []
                          (informChildren @ [transferComplete X (clock X 1) pendingTransfer])))))))))"

definition createCwmpFault :: "ext \<Rightarrow> string \<Rightarrow> string \<Rightarrow> xml" where
  "createCwmpFault X code faultStr =
     Node ''cwmp:Fault'' []
       [Node ''FaultCode'' [] [Text code],
        Node ''FaultString'' [] [Text (encodeEntities X faultStr)]]"

definition queueTransferComplete ::
  "sim \<Rightarrow> string option \<Rightarrow> string \<Rightarrow> string \<Rightarrow> string \<Rightarrow> sim" where
  "queueTransferComplete s ck startTime code faultStr =
     s\<lparr>pendingTransfers := pendingTransfers s
          @ [\<lparr>t_commandKey = ck, t_startTime = startTime,
              faultCode = (if code = [] then ''0'' else code), faultString = faultStr\<rparr>]\<rparr>"

section \<open>methods.js: the download worker\<close>

definition firmware :: "dwInfo \<Rightarrow> bool" where
  "firmware dw = (fileType dw = Some ''1 Firmware Upgrade Image'')"

definition downloadEnded :: "sim \<Rightarrow> dwInfo \<Rightarrow> sim" where
  "downloadEnded s dw =
     s\<lparr>device := (device s)\<lparr>downloadInProgress := (\<not> firmware dw \<and> downloadInProgress (device s)),
                               activeDownloadRequest := False\<rparr>\<rparr>"

definition scheduleTransferComplete :: "sim \<Rightarrow> sim" where
  "scheduleTransferComplete s =
     setTimeout s (StartSession (Some ''7 TRANSFER COMPLETE'')) (Some transferCompleteDelayMs)"

text \<open>
  The part of \<open>downloadFile\<close> that runs when it is called: the retry cap, the request
  with its headers, and the handle stored in the device. The \<open>Get\<close> effect keeps the
  \<open>dwInfo\<close> that the callbacks of the request share.
\<close>

definition downloadFile ::
  "ext \<Rightarrow> sim \<Rightarrow> string option \<Rightarrow> string \<Rightarrow> urlObj \<Rightarrow> dwInfo \<Rightarrow> sim \<times> error option" where
  "downloadFile X s ck startTime u dw =
     (if attempts dw > 5 then
        (queueTransferComplete s ck startTime ''9010'' ''Too many attempts'', None)
      else
        (case url_path X (null_template (url dw)) of
           None \<Rightarrow> (s, Some TypeError)
         | Some urlParsed \<Rightarrow>
             (let headers =
                    (case authHeader dw of
                       None \<Rightarrow> []
                     | Some h \<Rightarrow> if h = [] then [] else [(''Authorization'', h)])
                    @ (case cookies dw of
                         None \<Rightarrow> []
                       | Some cs \<Rightarrow>
                           if cs = [] then []
                           else [(''Cookie'', join ''; '' cs)]);
                  s1 = emit s (Get u (null_template (url dw)) headers dw)
              in (s1\<lparr>device := (device s1)\<lparr>activeDownloadRequest := True\<rparr>\<rparr>, None))))"

text \<open>
  The answer to a \<open>401\<close>: the \<open>dwInfo\<close> with the cookies of the response and, when the
  challenge is \<open>Start\<close>, \<open>Basic\<close> or \<open>Digest\<close>, with the new header and one more
  attempt. The flag says whether the request is sent again.
\<close>

definition challenged :: "ext \<Rightarrow> dwInfo \<Rightarrow> response \<Rightarrow> dwInfo \<times> bool" where
  "challenged X dw res =
     (let dw1 = dw\<lparr>cookies := Some (case set_cookie res of Some cs \<Rightarrow> cs | None \<Rightarrow> [])\<rparr> in
      case www_authenticate res of
        None \<Rightarrow> (dw1, False)
      | Some h \<Rightarrow>
          if h = [] then (dw1, False)
          else if match_scheme ''start'' h \<noteq> None \<or> match_scheme ''basic'' h \<noteq> None then
            (dw1\<lparr>authHeader :=
                   Some (''Basic '' @ base64 X (null_template (dw_username dw) @ '':''
                                                @ null_template (dw_password dw))),
                 attempts := attempts dw + 1\<rparr>, True)
          else if match_scheme ''digest'' h \<noteq> None then
            (dw1\<lparr>authHeader :=
                   Some (generateDigestAuth X (null_template (dw_username dw))
                           (null_template (dw_password dw)) ''GET''
                           (case url_path X (null_template (url dw)) of
                              Some p \<Rightarrow> p | None \<Rightarrow> [])
                           (parseDigestHeader h) (Some 1)),
                 attempts := attempts dw + 1\<rparr>, True)
          else (dw1, False))"

text \<open>
  The callback of the request, run when the response arrives. A \<open>200\<close> leaves the
  body to be read: the worker goes on with \<open>downloadFile_end\<close>.
\<close>

definition downloadFile_response ::
  "ext \<Rightarrow> sim \<Rightarrow> string option \<Rightarrow> string \<Rightarrow> urlObj \<Rightarrow> dwInfo \<Rightarrow> response
   \<Rightarrow> sim \<times> error option" where
  "downloadFile_response X s ck startTime u dw res =
     (if statusCode res = 401 \<and> snd (challenged X dw res) then
        downloadFile X (emit s Request_destroyed) ck startTime u (fst (challenged X dw res))
      else if statusCode res \<noteq> 200 then
        (scheduleTransferComplete
           (queueTransferComplete (emit s Resumed) ck startTime ''9010''
              (''Server returned code '' @ String_nat (statusCode res))), None)
      else (s, None))"

definition downloadFile_end ::
  "sim \<Rightarrow> string option \<Rightarrow> string \<Rightarrow> dwInfo \<Rightarrow> sim" where
  "downloadFile_end s ck startTime dw =
     (let s1 = queueTransferComplete (downloadEnded s dw) ck startTime ''0'' [] in
      if firmware dw then
        scheduleTransferComplete
          (s1\<lparr>device := (device s1)\<lparr>pendingReboot := True, firmwareUpgrade := True\<rparr>\<rparr>)
      else scheduleTransferComplete s1)"

definition downloadFile_error ::
  "sim \<Rightarrow> string option \<Rightarrow> string \<Rightarrow> dwInfo \<Rightarrow> string \<Rightarrow> sim" where
  "downloadFile_error s ck startTime dw message =
     scheduleTransferComplete
       (queueTransferComplete (downloadEnded s dw) ck startTime ''9010'' message)"

definition downloadFile_timeout ::
  "sim \<Rightarrow> string option \<Rightarrow> string \<Rightarrow> dwInfo \<Rightarrow> sim" where
  "downloadFile_timeout s ck startTime dw =
     scheduleTransferComplete
       (queueTransferComplete (downloadEnded (emit s Request_destroyed) dw) ck startTime
          ''9010'' ''Download timeout'')"

section \<open>methods.js: Download, Reboot, FactoryReset\<close>

text \<open>The loop of \<open>Download\<close> over the children of the request.\<close>

fun download_args :: "ext \<Rightarrow> element list \<Rightarrow> dwInfo \<Rightarrow> dwInfo" where
  "download_args X [] dw = dw"
| "download_args X (c # cs) dw =
     download_args X cs
       (if el_name c = ''CommandKey'' then dw\<lparr>commandKey := Some (decodeEntities X (el_text c))\<rparr>
        else if el_name c = ''URL'' then dw\<lparr>url := Some (decodeEntities X (el_text c))\<rparr>
        else if el_name c = ''FileType'' then dw\<lparr>fileType := Some (decodeEntities X (el_text c))\<rparr>
        else if el_name c = ''Username'' then
          dw\<lparr>dw_username := Some (decodeEntities X (el_text c))\<rparr>
        else if el_name c = ''Password'' then
          dw\<lparr>dw_password := Some (decodeEntities X (el_text c))\<rparr>
        else dw)"

definition new_dwInfo :: dwInfo where
  "new_dwInfo =
     \<lparr>attempts = 0, commandKey = None, url = None, fileType = None, dw_username = None,
      dw_password = None, authHeader = None, cookies = None\<rparr>"

definition downloadResponse :: xml where
  "downloadResponse =
     Node ''cwmp:DownloadResponse'' []
       [Node ''Status'' [] [Text ''1''],
        Node ''StartTime'' [] [Text ''0001-01-01T00:00:00Z''],
        Node ''CompleteTime'' [] [Text ''0001-01-01T00:00:00Z'']]"

text \<open>
  \<open>Download\<close>: the state, and the element given to the callback or the error thrown.
  The start time is the first reading of the clock. Without a \<open>URL\<close> element,
  \<open>dwInfo.url\<close> is \<open>null\<close> and \<open>dwInfo.url.startsWith\<close> throws.
\<close>

definition Download :: "ext \<Rightarrow> sim \<Rightarrow> element \<Rightarrow> sim \<times> (error + xml)" where
  "Download X s request =
     (let dw = download_args X (el_children request) new_dwInfo in
      case fileType dw of
        None \<Rightarrow>
          (s, Inr (createCwmpFault X ''9003'' ''Invalid arguments - FileType is required''))
      | Some ft \<Rightarrow>
          if ft = [] then
            (s, Inr (createCwmpFault X ''9003'' ''Invalid arguments - FileType is required''))
          else if ft \<notin> set validFileTypes then
            (s, Inr (createCwmpFault X ''9003''
                       (''Invalid arguments - FileType '' @ [CHR 0x27] @ ft @ [CHR 0x27]
                        @ '' not supported'')))
          else if firmware dw \<and> downloadInProgress (device s) then
            (s, Inr (createCwmpFault X ''9010'' ''File transfer already in progress''))
          else
            (let startTime = clock X 0;
                 s1 = (if firmware dw
                       then s\<lparr>device := (device s)\<lparr>downloadInProgress := True\<rparr>\<rparr> else s)
             in case url dw of
                  None \<Rightarrow> (s1, Inl TypeError)
                | Some link \<Rightarrow>
                    if startsWith link ''http://'' then
                      (case downloadFile X s1 (commandKey dw) startTime Http dw of
                         (s2, Some e) \<Rightarrow> (s2, Inl e)
                       | (s2, None) \<Rightarrow> (s2, Inr downloadResponse))
                    else if startsWith link ''https://'' then
                      (case downloadFile X s1 (commandKey dw) startTime Https dw of
                         (s2, Some e) \<Rightarrow> (s2, Inl e)
                       | (s2, None) \<Rightarrow> (s2, Inr downloadResponse))
                    else
                      (let s2 = (if firmware dw
                                 then s1\<lparr>device := (device s1)\<lparr>downloadInProgress := False\<rparr>\<rparr>
                                 else s1)
                       in (scheduleTransferComplete
                             (queueTransferComplete s2 (commandKey dw) startTime ''9016''
                                ''Invalid URL scheme''),
                           Inr downloadResponse))))"

definition stopSession :: "sim \<Rightarrow> sim" where
  "stopSession s =
     setTimeout (s\<lparr>acceptConnections := False\<rparr>) Resume_accepting (Some (int (timeout s)))"

text \<open>
  \<open>Reboot\<close> and \<open>FactoryReset\<close> go on after they have called the callback: they take
  it as a function of the state and the response element. The date of the cancelled
  transfer is the first reading of the clock.
\<close>

definition Reboot ::
  "ext \<Rightarrow> sim \<Rightarrow> element \<Rightarrow> (sim \<Rightarrow> xml \<Rightarrow> sim \<times> error option) \<Rightarrow> sim \<times> error option" where
  "Reboot X s request respond =
     (let s1 =
            (if activeDownloadRequest (device s) then
               (let s0 = emit s Request_destroyed;
                    s0 = s0\<lparr>device := (device s0)\<lparr>activeDownloadRequest := False\<rparr>\<rparr>
                in if downloadInProgress (device s0) then
                     queueTransferComplete
                       (s0\<lparr>device := (device s0)\<lparr>downloadInProgress := False\<rparr>\<rparr>)
                       (Some ''cancelled_by_reboot'') (clock X 0) ''9010'' ''Download failure''
                   else s0)
             else s)
      in case respond s1 (Node ''cwmp:RebootResponse'' [] [Text []]) of
           (s2, Some e) \<Rightarrow> (s2, Some e)
         | (s2, None) \<Rightarrow>
             (setTimeout (stopSession s2)
                (StartSession (Some ''1 BOOT,M Reboot,4 VALUE CHANGE''))
                (Some (int (timeout s2) + 10000)), None))"

definition FactoryReset ::
  "sim \<Rightarrow> element \<Rightarrow> (sim \<Rightarrow> xml \<Rightarrow> sim \<times> error option) \<Rightarrow> sim \<times> error option" where
  "FactoryReset s request respond =
     (case respond s (Node ''cwmp:FactoryResetResponse'' [] [Text []]) of
        (s1, Some e) \<Rightarrow> (s1, Some e)
      | (s1, None) \<Rightarrow> (setTimeout s1 Kill_process (Some sessionFactoryResetDelayMs), None))"

section \<open>The simulator: transport\<close>

definition getAuthorizationHeader ::
  "ext \<Rightarrow> device \<Rightarrow> string \<Rightarrow> string \<Rightarrow> device \<times> string" where
  "getAuthorizationHeader X d meth uri =
     (if username d = [] \<or> password d = [] then (d, [])
      else
        (case digestParams d of
           Some dps \<Rightarrow>
             (let d1 = d\<lparr>nonceCount := map_option Suc (nonceCount d)\<rparr> in
              (d1, generateDigestAuth X (username d1) (password d1)
                     (if meth = [] then ''POST'' else meth) (if uri = [] then ''/'' else uri)
                     dps (nonceCount d1)))
         | None \<Rightarrow> (d, ''Basic '' @ base64 X (username d @ '':'' @ password d))))"

definition NAMESPACES :: "(string \<times> string) list" where
  "NAMESPACES =
     [(''soap-enc'', ''http://schemas.xmlsoap.org/soap/encoding/''),
      (''soap-env'', ''http://schemas.xmlsoap.org/soap/envelope/''),
      (''xsd'', ''http://www.w3.org/2001/XMLSchema''),
      (''xsi'', ''http://www.w3.org/2001/XMLSchema-instance''),
      (''cwmp'', ''urn:dslforum-org:cwmp-1-0'')]"

text \<open>
  \<open>createSoapDocument\<close>: the envelope; the XML declaration that the function puts in
  front of it is a constant and is left out. The request id may be \<open>undefined\<close>.
\<close>

definition createSoapDocument :: "ext \<Rightarrow> string option \<Rightarrow> xml \<Rightarrow> error + xml" where
  "createSoapDocument X rid payload =
     (case encode X rid of
        None \<Rightarrow> Inl TypeError
      | Some i \<Rightarrow>
          Inr (Node ''soap-env:Envelope'' (map (\<lambda>ns. (''xmlns:'' @ fst ns, snd ns)) NAMESPACES)
                 [Node ''soap-env:Header'' []
                    [Node ''cwmp:ID'' [(''soap-env:mustUnderstand'', ''1'')] [Text i]],
                  Node ''soap-env:Body'' [] [payload]]))"

text \<open>
  \<open>sendRequest\<close> up to \<open>request.end(body)\<close>: the headers are made, which counts the
  nonce when a digest challenge is known, and the request is posted with its callback.
\<close>

definition sendRequest :: "ext \<Rightarrow> sim \<Rightarrow> xml option \<Rightarrow> callback \<Rightarrow> sim" where
  "sendRequest X s doc k =
     (case getAuthorizationHeader X (device s) ''POST'' (path s) of
        (d, auth) \<Rightarrow>
          emit (s\<lparr>device := d\<rparr>)
            (Posted \<lparr>post_body = doc, Authorization = auth, Cookie = cookie d\<rparr> k))"

definition createFaultResponse :: "ext \<Rightarrow> string \<Rightarrow> string \<Rightarrow> xml" where
  "createFaultResponse X code message =
     Node ''soap-env:Fault'' []
       [Node ''faultcode'' [] [Text ''Client''],
        Node ''faultstring'' [] [Text ''CWMP fault''],
        Node ''detail'' []
          [Node ''cwmp:Fault'' []
             [Node ''FaultCode'' [] [Text code],
              Node ''FaultString'' [] [Text (encodeEntities X message)]]]]"

text \<open>
  \<open>getRequestIdAndBody\<close>: the last \<open>Header\<close> and the last \<open>Body\<close> child of the
  envelope, and the text of the first \<open>ID\<close> child of the header. A document without
  an element, or an envelope without a header, makes the function throw.
\<close>

definition getRequestIdAndBody ::
  "ext \<Rightarrow> element \<Rightarrow> error + (string option \<times> element option)" where
  "getRequestIdAndBody X doc =
     (case el_children doc of
        [] \<Rightarrow> Inl TypeError
      | envelope # _ \<Rightarrow>
          (case find (\<lambda>c. el_localName c = ''Header'') (rev (el_children envelope)) of
             None \<Rightarrow> Inl TypeError
           | Some headerElement \<Rightarrow>
               Inr (map_option (\<lambda>c. decodeEntities X (el_text c))
                      (find (\<lambda>c. el_localName c = ''ID'') (el_children headerElement)),
                    find (\<lambda>c. el_localName c = ''Body'') (rev (el_children envelope)))))"

section \<open>The simulator: the session\<close>

definition updateParameter :: "sim \<Rightarrow> string \<Rightarrow> string \<Rightarrow> sim" where
  "updateParameter s parameter v =
     (case map_of (params (device s)) parameter of
        None \<Rightarrow> s
      | Some e \<Rightarrow>
          s\<lparr>device := (device s)\<lparr>params :=
               AList.update parameter (e\<lparr>pvalue := Some v\<rparr>) (params (device s))\<rparr>\<rparr>)"

text \<open>
  A handler of \<open>methods.js\<close> as \<open>handleMethod\<close> calls it: with the state, the request
  element and the callback. The handlers of the parameters end with the call of the
  callback.
\<close>

type_synonym handler =
  "sim \<Rightarrow> element \<Rightarrow> (sim \<Rightarrow> xml \<Rightarrow> sim \<times> error option) \<Rightarrow> sim \<times> error option"

definition on_device :: "(device \<Rightarrow> element \<Rightarrow> device \<times> (error + xml)) \<Rightarrow> handler" where
  "on_device h s request respond =
     (case h (device s) request of
        (d, Inl e) \<Rightarrow> (s\<lparr>device := d\<rparr>, Some e)
      | (d, Inr r) \<Rightarrow> respond (s\<lparr>device := d\<rparr>) r)"

text \<open>
  \<open>methods[localName]\<close>: the exports of \<open>methods.js\<close>. \<open>inform\<close>, called with an
  element as its event, throws at \<open>event.split\<close>; \<open>getPendingTransfers\<close> shifts the
  queue and never calls the callback. (The names of the properties that every object
  inherits are read as unknown methods here.)
\<close>

definition methods :: "ext \<Rightarrow> string \<Rightarrow> handler option" where
  "methods X name =
     (if name = ''inform'' then Some (\<lambda>s request respond. (s, Some TypeError))
      else if name = ''getPendingTransfers'' then
        Some (\<lambda>s request respond. (s\<lparr>pendingTransfers := tl (pendingTransfers s)\<rparr>, None))
      else if name = ''GetParameterNames'' then Some (on_device (GetParameterNames X))
      else if name = ''GetParameterValues'' then Some (on_device (GetParameterValues X))
      else if name = ''SetParameterValues'' then Some (on_device (SetParameterValues X))
      else if name = ''AddObject'' then Some (on_device AddObject)
      else if name = ''DeleteObject'' then Some (on_device DeleteObject)
      else if name = ''Download'' then
        Some (\<lambda>s request respond.
                case Download X s request of
                  (s1, Inl e) \<Rightarrow> (s1, Some e)
                | (s1, Inr r) \<Rightarrow> respond s1 r)
      else if name = ''Reboot'' then Some (Reboot X)
      else if name = ''FactoryReset'' then Some FactoryReset
      else None)"

text \<open>The callback that \<open>handleMethod\<close> gives a handler.\<close>

definition respondWith :: "ext \<Rightarrow> string option \<Rightarrow> sim \<Rightarrow> xml \<Rightarrow> sim \<times> error option" where
  "respondWith X rid s payload =
     (case createSoapDocument X rid payload of
        Inl e \<Rightarrow> (s, Some e)
      | Inr doc \<Rightarrow> (sendRequest X s (Some doc) To_handleMethod, None))"

definition informInterval :: "ext \<Rightarrow> (string \<times> param) list \<Rightarrow> int option" where
  "informInterval X ps =
     (case map_of ps ''Device.ManagementServer.PeriodicInformInterval'' of
        Some e \<Rightarrow> parseInt X (pvalue e)
      | None \<Rightarrow>
          (case map_of ps ''InternetGatewayDevice.ManagementServer.PeriodicInformInterval'' of
             Some e \<Rightarrow> parseInt X (pvalue e)
           | None \<Rightarrow> Some 10))"

text \<open>\<open>handleMethod\<close> with an empty response: the session closes.\<close>

definition closeSession :: "ext \<Rightarrow> sim \<Rightarrow> sim" where
  "closeSession X s0 =
     (let s = emit s0 Agent_destroyed; d = device s in
      if pendingReboot d \<and> firmwareUpgrade d \<and> transferCompleteSession d then
        (let s1 = s\<lparr>device := d\<lparr>pendingReboot := False, firmwareUpgrade := False,
                                  transferCompleteSession := False\<rparr>\<rparr>
         in setTimeout (stopSession s1) Boot_after_upgrade (Some (int (timeout s1))))
      else
        (let s1 = s\<lparr>device := d\<lparr>transferCompleteSession := False\<rparr>\<rparr> in
         if pendingReboot (device s1) then
           (let s2 = s1\<lparr>device := (device s1)\<lparr>pendingReboot := False\<rparr>\<rparr> in
            setTimeout (stopSession s2) (StartSession (Some ''1 BOOT,M Reboot''))
              (Some (int (timeout s2))))
         else
           (setTimeout s1 (StartSession None)
              (if pendingInform s1 then Some 0
               else map_option (\<lambda>i. 1000 * i) (informInterval X (params (device s1)))))
           \<lparr>nextInformTimeout := Some (timerCount s1)\<rparr>))"

definition handleMethod :: "ext \<Rightarrow> sim \<Rightarrow> element option \<Rightarrow> sim \<times> error option" where
  "handleMethod X s doc =
     (case doc of
        None \<Rightarrow> (closeSession X s, None)
      | Some d \<Rightarrow>
          (case getRequestIdAndBody X d of
             Inl e \<Rightarrow> (s, Some e)
           | Inr (rid, bodyElement) \<Rightarrow>
               (case bodyElement of
                  None \<Rightarrow> (s, Some TypeError)
                | Some b \<Rightarrow>
                    (case find (\<lambda>c. startsWith (el_name c) ''cwmp:'') (el_children b) of
                       None \<Rightarrow> (s, Some TypeError)
                     | Some requestElement \<Rightarrow>
                         (case methods X (el_localName requestElement) of
                            None \<Rightarrow>
                              respondWith X rid s
                                (createFaultResponse X ''9000'' ''Method not supported'')
                          | Some m \<Rightarrow> m s requestElement (respondWith X rid))))))"

text \<open>
  \<open>cpeRequest\<close>. A record of the queue is looked for, and sent, before
  \<open>acceptConnections\<close> is read.
\<close>

definition cpeRequest :: "ext \<Rightarrow> sim \<Rightarrow> element option \<Rightarrow> sim \<times> error option" where
  "cpeRequest X s requestXml =
     (case requestXml of
        None \<Rightarrow>
          if \<not> acceptConnections s then (emit s Agent_destroyed, None)
          else handleMethod X s None
      | Some doc \<Rightarrow>
          (case getRequestIdAndBody X doc of
             Inl e \<Rightarrow> (s, Some e)
           | Inr (rid, bodyElement) \<Rightarrow>
               (case pendingTransfers s of
                  pendingTransfer # rest \<Rightarrow>
                    (let s1 = s\<lparr>pendingTransfers := rest,
                                device := (device s)\<lparr>transferCompleteSession := True\<rparr>\<rparr>
                     in case createSoapDocument X rid
                               (transferComplete X (clock X 0) pendingTransfer) of
                          Inl e \<Rightarrow> (s1, Some e)
                        | Inr doc1 \<Rightarrow> (sendRequest X s1 (Some doc1) To_handleMethod, None))
                | [] \<Rightarrow>
                    if \<not> acceptConnections s then
                      (case createSoapDocument X rid
                              (createFaultResponse X ''9002''
                                 ''Device not ready to accept requests'') of
                         Inl e \<Rightarrow> (s, Some e)
                       | Inr doc1 \<Rightarrow> (sendRequest X s (Some doc1) To_destroy, None))
                    else (sendRequest X s None To_handleMethod, None))))"

text \<open>The callback of a request, called with the parsed response.\<close>

definition callback :: "ext \<Rightarrow> callback \<Rightarrow> sim \<Rightarrow> element option \<Rightarrow> sim \<times> error option" where
  "callback X k s doc =
     (case k of
        To_cpeRequest \<Rightarrow> cpeRequest X s doc
      | To_handleMethod \<Rightarrow> handleMethod X s doc
      | To_destroy \<Rightarrow> (emit s Agent_destroyed, None))"

text \<open>
  \<open>sendRequest\<close> from the end of the response on, for the request that was posted
  with the document \<open>doc\<close> and the callback \<open>k\<close>. (\<open>Content-Length\<close> is read under a
  name that the headers of the runtime, which are in lower case, do not have: the body
  alone decides whether there is a document.)
\<close>

definition sendRequest_end ::
  "ext \<Rightarrow> sim \<Rightarrow> xml option \<Rightarrow> callback \<Rightarrow> response \<Rightarrow> sim \<times> error option" where
  "sendRequest_end X s doc k res =
     (if statusCode res = 401 then
        (case www_authenticate res of
           None \<Rightarrow>
             (s, Some (Error (''Authentication failed with status 401: '' @ body res)))
         | Some wwwAuth \<Rightarrow>
             if startsWith (toLowerCase wwwAuth) ''digest'' then
               (sendRequest X
                  (s\<lparr>device := (device s)\<lparr>digestParams := Some (parseDigestHeader wwwAuth),
                                            nonceCount := Some 0\<rparr>\<rparr>)
                  doc k, None)
             else (s, Some (Error (''Authentication failed with status 401: '' @ body res))))
      else if statusCode res div 100 \<noteq> 2 then
        (s, Some (Error (''Unexpected response Code from ACS '' @ String_nat (statusCode res)
                         @ '': '' @ body res)))
      else if body res \<noteq> [] \<and> parseXml X (body res) = None then (s, Some SyntaxError)
      else
        callback X k
          (case set_cookie res of
             None \<Rightarrow> s
           | Some c \<Rightarrow> s\<lparr>device := (device s)\<lparr>cookie := Some c\<rparr>\<rparr>)
          (if body res \<noteq> [] then parseXml X (body res) else None))"

definition sendRequest_timeout :: "sim \<Rightarrow> sim \<times> error option" where
  "sendRequest_timeout s = (s, Some (Error ''Socket timed out''))"

definition startSession :: "ext \<Rightarrow> sim \<Rightarrow> string option \<Rightarrow> sim \<times> error option" where
  "startSession X s0 event =
     (case inform X (s0\<lparr>nextInformTimeout := None, pendingInform := False\<rparr>) event of
        (s, Inl e) \<Rightarrow> (s, Some e)
      | (s, Inr payload) \<Rightarrow>
          (case createSoapDocument X (Some (requestId X)) payload of
             Inl e \<Rightarrow> (s, Some e)
           | Inr doc \<Rightarrow> (sendRequest X s (Some doc) To_cpeRequest, None)))"

text \<open>The function of a timer, run when the timer fires.\<close>

definition fire :: "ext \<Rightarrow> sim \<Rightarrow> timer \<Rightarrow> sim \<times> error option" where
  "fire X s f =
     (case f of
        StartSession event \<Rightarrow> startSession X s event
      | Resume_accepting \<Rightarrow> (s\<lparr>acceptConnections := True\<rparr>, None)
      | Boot_after_upgrade \<Rightarrow>
          startSession X
            (updateParameter
               (updateParameter s ''Device.DeviceInfo.SoftwareVersion'' ''2.0.0-upgraded'')
               ''InternetGatewayDevice.DeviceInfo.SoftwareVersion'' ''2.0.0-upgraded'')
            (Some ''1 BOOT,M Download,4 VALUE CHANGE'')
      | Kill_process \<Rightarrow> (emit s Process_killed, None))"

text \<open>The listener for connection requests, on a request.\<close>

definition connectionRequest :: "sim \<Rightarrow> sim" where
  "connectionRequest s =
     (if \<not> acceptConnections s then emit s Socket_destroyed
      else
        (let s1 = emit s Answered in
         case nextInformTimeout s1 of
           None \<Rightarrow> s1\<lparr>pendingInform := True\<rparr>
         | Some h \<Rightarrow>
             (setTimeout (clearTimeout s1 h) (StartSession (Some ''6 CONNECTION REQUEST''))
                (Some 0))
             \<lparr>nextInformTimeout := Some (timerCount s1)\<rparr>))"

section \<open>Vocabulary of the statements and sample inputs\<close>



text \<open>
  A device as \<open>start\<close> leaves its private fields, for a data model without
  \<open>ManagementServer\<close> credentials.
\<close>

definition initial_device :: "(string \<times> param) list \<Rightarrow> device" where
  "initial_device ps =
     \<lparr>params = ps, sortedPaths = None, pendingReboot = False, firmwareUpgrade = False,
      transferCompleteSession = False, downloadInProgress = False,
      activeDownloadRequest = False, digestParams = None, nonceCount = Some 0,
      cookie = None, username = ''usertest'', password = ''passtest''\<rparr>"

definition leaf :: "bool \<Rightarrow> string \<Rightarrow> string \<Rightarrow> param" where
  "leaf w v t = \<lparr>writable = w, pvalue = Some v, ptype = Some t\<rparr>"

text \<open>
  A data model with a leaf directly under \<open>A.\<close> and one instance \<open>A.1.\<close> that has the
  leaf \<open>X\<close>.
\<close>

definition deviceA :: device where
  "deviceA = initial_device
     [(''A.Enable'', leaf True ''1'' ''xsd:boolean''),
      (''A.1.'', objectNode),
      (''A.1.X'', leaf False ''5'' ''xsd:int'')]"

text \<open>A request element \<open>cwmp:m\<close> with the given children, and a child with text only.\<close>

definition rpc :: "string \<Rightarrow> element list \<Rightarrow> element" where
  "rpc m cs = Element (''cwmp:'' @ m) m [] [] cs"

definition el :: "string \<Rightarrow> string \<Rightarrow> element" where
  "el n s = Element n n s [] []"

text \<open>
  One choice of the collaborators, to run the model on sample inputs. The entity codec
  is the identity, as it is on text without markup characters; \<open>JSON.parse\<close> is given
  on the four texts of a boolean, \<open>Number.parseInt\<close> on strings of digits, the URL
  parser on one URL; no sample parses a document.
\<close>

definition sample_JSON_parse_Boolean :: "string \<Rightarrow> bool option" where
  "sample_JSON_parse_Boolean s =
     (if s = ''true'' \<or> s = ''1'' then Some True
      else if s = ''false'' \<or> s = ''0'' then Some False
      else None)"

definition sample_parseInt :: "string option \<Rightarrow> int option" where
  "sample_parseInt v =
     (case v of
        None \<Rightarrow> None
      | Some s \<Rightarrow>
          if s \<noteq> [] \<and> list_all (\<lambda>c. c \<in> set ''0123456789'') s
          then Some (foldl (\<lambda>a c. 10 * a + (int (of_char c) - 48)) 0 s)
          else None)"

definition sample_ext :: ext where
  "sample_ext =
     \<lparr>md5 = (\<lambda>s. ''md5('' @ s @ '')''),
      base64 = (\<lambda>s. ''base64('' @ s @ '')''),
      encodeEntities = (\<lambda>s. s),
      decodeEntities = (\<lambda>s. s),
      encodeUndefined = None,
      parseXml = (\<lambda>s. None),
      parseInt = sample_parseInt,
      JSON_parse_Boolean = sample_JSON_parse_Boolean,
      url_path = (\<lambda>u. if u = ''http://files.example/fw.bin'' then Some ''/fw.bin'' else None),
      cnonce = ''0a1b2c3d4e5f60718293a4b5c6d7e8f9'',
      requestId = ''k3x9q0ab'',
      clock = (\<lambda>n. ''2026-01-01T00:00:00.000Z'')\<rparr>"

text \<open>A data model with the object \<open>A.\<close> and two leaves under it.\<close>

definition deviceB :: device where
  "deviceB = initial_device
     [(''A.'', objectNode),
      (''A.B'', leaf True ''b'' ''xsd:string''),
      (''A.Long'', leaf True ''l'' ''xsd:string'')]"

text \<open>
  The specification's wording of the paths that \<open>GetParameterNames\<close> returns at the
  next level, for comparison: the paths that "start with \<open>ParameterPath\<close> and contain
  no further dot after it (or end with a single trailing dot)".
\<close>

definition spec_nextLevel :: "string \<Rightarrow> string \<Rightarrow> bool" where
  "spec_nextLevel parameterPath p =
     (startsWith p parameterPath \<and>
      (if CHR ''.'' \<in> set (drop (length parameterPath) p)
       then CHR ''.'' \<notin> set (butlast (drop (length parameterPath) p)) else True))"

text \<open>
  A \<open>ParameterValueStruct\<close> that \<open>SetParameterValues\<close> can carry out on the parameters
  \<open>ps\<close>: it has a \<open>Name\<close> child that names a parameter of \<open>ps\<close>, and a \<open>Value\<close> child
  with a \<open>type\<close> attribute.
\<close>

definition wellformed_struct :: "(string \<times> param) list \<Rightarrow> element \<Rightarrow> bool" where
  "wellformed_struct ps p =
     (case spv_fields (el_children p) None None of
        (Some name, Some v) \<Rightarrow>
          map_of ps name \<noteq> None \<and> find (\<lambda>a. fst a = ''type'') (el_attrs v) \<noteq> None
      | _ \<Rightarrow> False)"

text \<open>
  The value and type that one struct gives the parameter \<open>k\<close>, if it names \<open>k\<close>; what
  a list of structs gives it, where the last struct that names it counts; and an entry
  with value and type replaced so.
\<close>

definition assignment :: "ext \<Rightarrow> element \<Rightarrow> string \<Rightarrow> (string \<times> string) option" where
  "assignment X p k =
     (case spv_fields (el_children p) None None of
        (Some name, Some v) \<Rightarrow>
          (case find (\<lambda>a. fst a = ''type'') (el_attrs v) of
             Some a \<Rightarrow> if name = k then Some (decodeEntities X (el_text v), snd a) else None
           | None \<Rightarrow> None)
      | _ \<Rightarrow> None)"

fun assigned :: "ext \<Rightarrow> element list \<Rightarrow> string \<Rightarrow> (string \<times> string) option" where
  "assigned X [] k = None"
| "assigned X (p # rest) k =
     (case assigned X rest k of Some vt \<Rightarrow> Some vt | None \<Rightarrow> assignment X p k)"

definition assign :: "(string \<times> string) option \<Rightarrow> param option \<Rightarrow> param option" where
  "assign vt e =
     (case vt of
        None \<Rightarrow> e
      | Some (v, ty) \<Rightarrow> map_option (\<lambda>e. e\<lparr>pvalue := Some v, ptype := Some ty\<rparr>) e)"

text \<open>A \<open>ParameterValueStruct\<close> element with the given name, value and type.\<close>

definition valueStruct :: "string \<Rightarrow> string \<Rightarrow> string \<Rightarrow> element" where
  "valueStruct name v ty =
     Element ''ParameterValueStruct'' ''ParameterValueStruct'' [] []
       [el ''Name'' name, Element ''Value'' ''Value'' v [(''type'', ty)] []]"

text \<open>
  The process in the middle of a session (no inform is scheduled), with a stop window
  of ten seconds and the ACS at the path \<open>/acs\<close>.
\<close>

definition initial_sim :: "device \<Rightarrow> sim" where
  "initial_sim d =
     \<lparr>device = d, nextInformTimeout = None, pendingInform = False, acceptConnections = True,
      timeout = 10000, path = ''/acs'', pendingTransfers = [], timers = [], timerCount = 0,
      wire = []\<rparr>"

text \<open>A parsed document: an envelope with the request id and the payload.\<close>

definition envelope :: "string \<Rightarrow> element list \<Rightarrow> element" where
  "envelope rid payload =
     Element [] [] [] []
       [Element ''soap-env:Envelope'' ''Envelope'' [] []
          [Element ''soap-env:Header'' ''Header'' [] [] [Element ''cwmp:ID'' ''ID'' rid [] []],
           Element ''soap-env:Body'' ''Body'' [] [] payload]]"

text \<open>
  The envelope of \<open>createSoapDocument\<close> for an encoded request id and a payload, and
  the \<open>9002\<close> fault of \<open>cpeRequest\<close>, written out.
\<close>

definition soapEnvelope :: "string \<Rightarrow> xml \<Rightarrow> xml" where
  "soapEnvelope i payload =
     Node ''soap-env:Envelope''
       [(''xmlns:soap-enc'', ''http://schemas.xmlsoap.org/soap/encoding/''),
        (''xmlns:soap-env'', ''http://schemas.xmlsoap.org/soap/envelope/''),
        (''xmlns:xsd'', ''http://www.w3.org/2001/XMLSchema''),
        (''xmlns:xsi'', ''http://www.w3.org/2001/XMLSchema-instance''),
        (''xmlns:cwmp'', ''urn:dslforum-org:cwmp-1-0'')]
       [Node ''soap-env:Header'' []
          [Node ''cwmp:ID'' [(''soap-env:mustUnderstand'', ''1'')] [Text i]],
        Node ''soap-env:Body'' [] [payload]]"

definition notReadyFault :: "ext \<Rightarrow> xml" where
  "notReadyFault X =
     Node ''soap-env:Fault'' []
       [Node ''faultcode'' [] [Text ''Client''],
        Node ''faultstring'' [] [Text ''CWMP fault''],
        Node ''detail'' []
          [Node ''cwmp:Fault'' []
             [Node ''FaultCode'' [] [Text ''9002''],
              Node ''FaultString'' []
                [Text (encodeEntities X ''Device not ready to accept requests'')]]]]"

text \<open>
  A run of the download worker in which each response of the list answers the request
  that the response before it made the worker send.
\<close>

fun rechallenged ::
  "ext \<Rightarrow> sim \<Rightarrow> string option \<Rightarrow> string \<Rightarrow> urlObj \<Rightarrow> dwInfo \<Rightarrow> response list
   \<Rightarrow> sim \<times> error option" where
  "rechallenged X s ck startTime u dw [] = (s, None)"
| "rechallenged X s ck startTime u dw (res # rest) =
     (case downloadFile_response X s ck startTime u dw res of
        (s1, Some e) \<Rightarrow> (s1, Some e)
      | (s1, None) \<Rightarrow>
          if statusCode res = 401 \<and> snd (challenged X dw res)
          then rechallenged X s1 ck startTime u (fst (challenged X dw res)) rest
          else (s1, None))"

text \<open>
  A \<open>Download\<close> request for a firmware image with credentials, and the \<open>401\<close> with a
  \<open>Basic\<close> challenge that the file server answers it with.
\<close>

definition firmwareDownload :: element where
  "firmwareDownload =
     rpc ''Download''
       [el ''CommandKey'' ''fw1'', el ''FileType'' ''1 Firmware Upgrade Image'',
        el ''URL'' ''http://files.example/fw.bin'', el ''Username'' ''u'',
        el ''Password'' ''p'']"

definition basic401 :: response where
  "basic401 =
     \<lparr>statusCode = 401, www_authenticate = Some ''Basic realm=files'', set_cookie = None,
      body = []\<rparr>"

text \<open>A \<open>401\<close> with a \<open>Digest\<close> challenge, as the ACS sends it.\<close>

definition digest401 :: response where
  "digest401 =
     \<lparr>statusCode = 401,
      www_authenticate = Some ''Digest realm=\"r\", nonce=\"n\", qop=\"auth\", algorithm=MD5'',
      set_cookie = None, body = []\<rparr>"

text \<open>
  What \<open>start\<close> makes of a data model before it opens the first session: the private
  fields are reset, the serial number and the MAC address are written where the model
  has them, and the credentials are those of the model's \<open>ManagementServer\<close>, with
  \<open>usertest\<close> and \<open>passtest\<close> as the default. A model with a \<open>Username\<close> but without
  the \<open>Password\<close> beside it makes \<open>start\<close> throw.
\<close>

definition set_value :: "string \<Rightarrow> string \<Rightarrow> (string \<times> param) list \<Rightarrow> (string \<times> param) list" where
  "set_value k v ps =
     (case map_of ps k of
        None \<Rightarrow> ps
      | Some e \<Rightarrow> AList.update k (e\<lparr>pvalue := Some v\<rparr>) ps)"

definition start_device ::
  "(string \<times> param) list \<Rightarrow> string \<Rightarrow> string \<Rightarrow> error + device" where
  "start_device dataModel serialNumber macAddress =
     (let ps =
            set_value ''Device.WANDevice.1.WANConnectionDevice.1.WANIPConnection.1.MACAddress''
              macAddress
           (set_value
              ''InternetGatewayDevice.WANDevice.1.WANConnectionDevice.1.WANIPConnection.1.MACAddress''
              macAddress
           (set_value ''InternetGatewayDevice.DeviceInfo.SerialNumber'' serialNumber
           (set_value ''Device.DeviceInfo.SerialNumber'' serialNumber
           (set_value ''DeviceID.SerialNumber'' serialNumber dataModel))));
          d = (initial_device ps)
      in case map_of ps ''Device.ManagementServer.Username'' of
           Some u \<Rightarrow>
             (case map_of ps ''Device.ManagementServer.Password'' of
                None \<Rightarrow> Inl TypeError
              | Some p \<Rightarrow>
                  Inr (d\<lparr>username := (case pvalue u of Some x \<Rightarrow> x | None \<Rightarrow> []),
                         password := (case pvalue p of Some x \<Rightarrow> x | None \<Rightarrow> [])\<rparr>))
         | None \<Rightarrow>
             (case map_of ps ''InternetGatewayDevice.ManagementServer.Username'' of
                Some u \<Rightarrow>
                  (case map_of ps ''InternetGatewayDevice.ManagementServer.Password'' of
                     None \<Rightarrow> Inl TypeError
                   | Some p \<Rightarrow>
                       Inr (d\<lparr>username := (case pvalue u of Some x \<Rightarrow> x | None \<Rightarrow> []),
                              password := (case pvalue p of Some x \<Rightarrow> x | None \<Rightarrow> [])\<rparr>))
              | None \<Rightarrow> Inr d))"

text \<open>
  A data model whose \<open>ManagementServer\<close> has a user name and, as a device reports it,
  an empty password; and the device that \<open>start\<close> makes of it.
\<close>

definition modelP :: "(string \<times> param) list" where
  "modelP =
     [(''InternetGatewayDevice.ManagementServer.Username'', leaf True ''cpe-1'' ''xsd:string''),
      (''InternetGatewayDevice.ManagementServer.Password'', leaf True [] ''xsd:string'')]"

definition deviceP :: device where
  "deviceP = (initial_device modelP)\<lparr>username := ''cpe-1'', password := []\<rparr>"

text \<open>An empty answer of the ACS, and a queued record of a finished transfer.\<close>

definition ok200 :: response where
  "ok200 = \<lparr>statusCode = 200, www_authenticate = None, set_cookie = None, body = []\<rparr>"

definition transfer1 :: transfer where
  "transfer1 =
     \<lparr>t_commandKey = Some ''fw1'', t_startTime = ''2026-01-01T00:00:00.000Z'',
      faultCode = ''0'', faultString = []\<rparr>"

section \<open>Properties\<close>

lemma replicate_numeral: "replicate (numeral k) x = x # replicate (pred_numeral k) x"
  by (simp add: numeral_eq_Suc)

lemmas eval_strings =
  padStart_def String_num_def digit_char_def toUpperCase_def toUpper_char_def
  replicate_numeral String_nat.simps hex_nat.simps

subsection \<open>The nonce count of the Digest header\<close>

text \<open>
  C5. The \<open>nc\<close> field of the generated Digest header is the decimal rendering of
  the nonce count, padded to eight characters: at nonce count 10, with a challenge that
  carries \<open>qop=auth\<close>, the header reads \<open>nc=00000010\<close>, where the eight-digit
  hexadecimal rendering is \<open>0000000a\<close>.
\<close>

theorem C5_nc_is_decimal:
  "generateDigestAuth X ''usertest'' ''passtest'' ''POST'' ''/acs''
     [(''realm'', ''r''), (''nonce'', ''n''), (''qop'', ''auth''), (''algorithm'', ''MD5'')]
     (Some 10)
   = ''Digest username=\"usertest\", realm=\"r\", nonce=\"n\", uri=\"/acs\", response=\"''
     @ md5 X (md5 X ''usertest:r:passtest'' @ '':n:00000010:'' @ cnonce X @ '':auth:''
              @ md5 X ''POST:/acs'')
     @ ''\", algorithm=MD5, qop=auth, nc=00000010, cnonce=\"'' @ cnonce X @ ''\"''
   \<and> ncStr (Some 10) = ''00000010''
   \<and> spec_nc 10 = ''0000000a''"
  by (simp add: generateDigestAuth_def ncStr_def prop_or_def spec_nc_def Let_def eval_strings)

subsection \<open>AddObject and DeleteObject\<close>

lemma params_getSortedPaths: "params (fst (getSortedPaths d)) = params d"
  by (simp add: getSortedPaths_def split: option.split)

lemma instancePath_starts: "startsWith (instancePath objectName i p) objectName"
  by (simp add: instancePath_def startsWith_def)

lemma keys_update_filter:
  "\<not> P k \<Longrightarrow> filter P (map fst (AList.update k v ps)) = filter P (map fst ps)"
  by (induction ps) auto

text \<open>The loop of \<open>AddObject\<close> adds keys under \<open>objectName\<close> only.\<close>

lemma addLeaves_keys_outside:
  "filter (\<lambda>k. \<not> startsWith k objectName) (map fst (fst (addLeaves objectName i paths ps)))
   = filter (\<lambda>k. \<not> startsWith k objectName) (map fst ps)"
proof (induction paths arbitrary: ps)
  case Nil
  show ?case by simp
next
  case (Cons p rest)
  show ?case
    by (simp add: Cons.IH keys_update_filter instancePath_starts split: option.split)
qed

lemma AddObject_keys_outside:
  "filter (\<lambda>k. \<not> startsWith k (el_text c))
      (map fst (params (fst (AddObject d (Element n l t a (c # cs))))))
   = filter (\<lambda>k. \<not> startsWith k (el_text c)) (map fst (params d))"
proof -
  let ?o = "el_text c"
  let ?i = "findInstance (params d) ?o 1"
  let ?ps1 = "AList.update (?o @ String_nat ?i @ ''.'') objectNode (params d)"
  let ?d1 = "d\<lparr>params := ?ps1\<rparr>"
  let ?r = "addLeaves ?o ?i (snd (getSortedPaths ?d1)) ?ps1"
  have "params (fst (AddObject d (Element n l t a (c # cs)))) = fst ?r"
    by (cases ?r) (auto simp: AddObject_def Let_def params_getSortedPaths split: option.split)
  moreover have "filter (\<lambda>k. \<not> startsWith k ?o) (map fst (fst ?r))
      = filter (\<lambda>k. \<not> startsWith k ?o) (map fst ?ps1)"
    by (rule addLeaves_keys_outside)
  moreover have "filter (\<lambda>k. \<not> startsWith k ?o) (map fst ?ps1)
      = filter (\<lambda>k. \<not> startsWith k ?o) (map fst (params d))"
    by (rule keys_update_filter) (simp add: startsWith_def)
  ultimately show ?thesis by simp
qed

lemma DeleteObject_keys:
  "map fst (params (fst (DeleteObject d (Element n l t a (c # cs)))))
   = filter (\<lambda>k. \<not> startsWith k (el_text c)) (map fst (params d))"
  by (simp add: DeleteObject_def Let_def filter_map comp_def)

text \<open>
  C7, as the code has it. \<open>AddObject\<close> on an object name followed by \<open>DeleteObject\<close>
  on the same object name string (the text of the first child of either request)
  leaves exactly those keys of the prior parameter map, in their order, that do not
  start with the object name: the keys that \<open>AddObject\<close> created are gone, and so is
  every prior key under the object name.
\<close>

theorem C7_add_then_delete_keys:
  "map fst (params (fst (DeleteObject
       (fst (AddObject d (Element n l t a (c # cs))))
       (Element n' l' t' a' (Element cn cl (el_text c) ca cc # cs')))))
   = filter (\<lambda>k. \<not> startsWith k (el_text c)) (map fst (params d))"
  using DeleteObject_keys[of "fst (AddObject d (Element n l t a (c # cs)))" n' l' t' a'
      "Element cn cl (el_text c) ca cc" cs']
  by (simp add: AddObject_keys_outside)

text \<open>
  C7 as stated fails: on the data model \<open>deviceA\<close>, \<open>AddObject\<close> and \<open>DeleteObject\<close>
  on \<open>A.\<close> leave no key, where there were three.
\<close>

theorem C7_counterexample:
  "map fst (params deviceA) = [''A.Enable'', ''A.1.'', ''A.1.X'']
   \<and> map fst (params (fst (DeleteObject
        (fst (AddObject deviceA (rpc ''AddObject'' [el ''ObjectName'' ''A.''])))
        (rpc ''DeleteObject'' [el ''ObjectName'' ''A.''])))) = []"
  by code_simp










subsection \<open>GetParameterNames\<close>

text \<open>
  C8. At the next level the handler asks for more than one character after
  \<open>ParameterPath\<close>, and looks for a dot from the second character after it on. On the
  data model \<open>deviceB\<close>, whose sorted paths are \<open>A.\<close>, \<open>A.B\<close> and \<open>A.Long\<close>, the request
  with \<open>ParameterPath\<close> \<open>A.\<close> and \<open>NextLevel\<close> true is answered with \<open>A.Long\<close> alone:
  \<open>A.B\<close> starts with \<open>A.\<close> and has no further dot, and is left out. Without
  \<open>NextLevel\<close> all three paths are returned.
\<close>

theorem C8_next_level_omits_short_names:
  "GetParameterNames sample_ext deviceB
     (rpc ''GetParameterNames'' [el ''ParameterPath'' ''A.'', el ''NextLevel'' ''true''])
   = (deviceB\<lparr>sortedPaths := Some [''A.'', ''A.B'', ''A.Long'']\<rparr>,
      Inr (Node ''cwmp:GetParameterNamesResponse'' []
             [Node ''ParameterList''
                [(''soap-enc:arrayType'', ''cwmp:ParameterInfoStruct[1]'')]
                [Node ''ParameterInfoStruct'' []
                   [Node ''Name'' [] [Text ''A.Long''],
                    Node ''Writable'' [] [Text ''true'']]]]))
   \<and> parameterList sample_ext deviceB
       (rpc ''GetParameterNames'' [el ''ParameterPath'' ''A.'', el ''NextLevel'' ''true''])
     = Inr [''A.Long'']
   \<and> spec_nextLevel ''A.'' ''A.B''
   \<and> parameterList sample_ext deviceB
       (rpc ''GetParameterNames'' [el ''ParameterPath'' ''A.'', el ''NextLevel'' ''false''])
     = Inr [''A.'', ''A.B'', ''A.Long'']"
  by code_simp

subsection \<open>SetParameterValues\<close>

lemma setParameterValue_wellformed:
  assumes "wellformed_struct ps p"
  shows "snd (setParameterValue X ps p) = None"
    and "map fst (fst (setParameterValue X ps p)) = map fst ps"
    and "map (\<lambda>kv. writable (snd kv)) (fst (setParameterValue X ps p))
         = map (\<lambda>kv. writable (snd kv)) ps"
    and "map_of (fst (setParameterValue X ps p)) k = assign (assignment X p k) (map_of ps k)"
proof -
  from assms obtain name v a e where
    f: "spv_fields (el_children p) None None = (Some name, Some v)"
    and e: "map_of ps name = Some e"
    and a: "find (\<lambda>a. fst a = ''type'') (el_attrs v) = Some a"
    by (auto simp: wellformed_struct_def split: prod.splits option.splits)
  let ?e2 = "e\<lparr>pvalue := Some (decodeEntities X (el_text v)), ptype := Some (snd a)\<rparr>"
  have r: "setParameterValue X ps p = (AList.update name ?e2 ps, None)"
    by (simp add: setParameterValue_def f e a template_def Let_def)
  have mem: "name \<in> fst ` set ps" using map_of_SomeD[OF e] by force
  show "snd (setParameterValue X ps p) = None" by (simp add: r)
  show "map fst (fst (setParameterValue X ps p)) = map fst ps"
    using mem by (simp add: r update_keys)
  show "map (\<lambda>kv. writable (snd kv)) (fst (setParameterValue X ps p))
        = map (\<lambda>kv. writable (snd kv)) ps"
    unfolding r fst_conv using e
  proof (induction ps)
    case Nil
    then show ?case by simp
  next
    case (Cons x xs)
    then show ?case by (cases x) (auto split: if_splits)
  qed
  show "map_of (fst (setParameterValue X ps p)) k = assign (assignment X p k) (map_of ps k)"
    by (auto simp: r update_conv' assign_def assignment_def f a e)
qed

lemma wellformed_struct_keys:
  "map fst ps' = map fst ps \<Longrightarrow> wellformed_struct ps' p = wellformed_struct ps p"
proof -
  assume "map fst ps' = map fst ps"
  then have "fst ` set ps' = fst ` set ps" by (metis list.set_map)
  then have "\<And>k. (map_of ps' k = None) = (map_of ps k = None)"
    by (simp add: map_of_eq_None_iff)
  then show ?thesis by (simp add: wellformed_struct_def split: prod.splits option.splits)
qed

lemma assign_assign:
  "assign vt (assign vt' e) = assign (case vt of Some x \<Rightarrow> Some x | None \<Rightarrow> vt') e"
  by (cases vt; cases vt'; cases e) (auto simp: assign_def)

lemma setParameterValues_wellformed:
  "list_all (wellformed_struct ps) structs \<Longrightarrow>
   snd (setParameterValues X ps structs) = None
   \<and> map fst (fst (setParameterValues X ps structs)) = map fst ps
   \<and> map (\<lambda>kv. writable (snd kv)) (fst (setParameterValues X ps structs))
     = map (\<lambda>kv. writable (snd kv)) ps
   \<and> (\<forall>k. map_of (fst (setParameterValues X ps structs)) k
          = assign (assigned X structs k) (map_of ps k))"
proof (induction structs arbitrary: ps)
  case Nil
  then show ?case by (simp add: assign_def)
next
  case (Cons p rest)
  then have wp: "wellformed_struct ps p" and wr: "list_all (wellformed_struct ps) rest"
    by simp_all
  note s = setParameterValue_wellformed[OF wp, of X]
  obtain ps1 where ps1: "setParameterValue X ps p = (ps1, None)"
    using s(1) by (cases "setParameterValue X ps p") auto
  have keys1: "map fst ps1 = map fst ps" using s(2) ps1 by simp
  have "list_all (wellformed_struct ps1) rest"
    using wr wellformed_struct_keys[OF keys1] by (simp add: list_all_iff)
  note ih = Cons.IH[OF this]
  have step: "setParameterValues X ps (p # rest) = setParameterValues X ps1 rest"
    by (simp add: ps1)
  have m1: "\<And>k. map_of ps1 k = assign (assignment X p k) (map_of ps k)"
    using s(4) ps1 by simp
  have w1: "map (\<lambda>kv. writable (snd kv)) ps1 = map (\<lambda>kv. writable (snd kv)) ps"
    using s(3) ps1 by simp
  have "\<And>k. map_of (fst (setParameterValues X ps1 rest)) k
         = assign (assigned X (p # rest) k) (map_of ps k)"
    using ih by (simp add: m1 assign_assign)
  then show ?case
    unfolding step using ih keys1 w1 by simp
qed

text \<open>
  C10. Let every struct of the request's parameter list have a \<open>Name\<close> that names a
  parameter of the device and a \<open>Value\<close> with a \<open>type\<close> attribute. Then
  \<open>SetParameterValues\<close> responds \<open>Status\<close> 0 and changes nothing of the device but its
  parameters; these keep their keys, their order and their writable flags, and a
  parameter that the request names has the decoded value and the type of the last
  struct that names it, whatever its writable flag is; the other parameters are as
  before.
\<close>

theorem C10_SetParameterValues_frame:
  assumes "list_all (wellformed_struct (params d)) (el_children c)"
  shows "\<exists>ps'. SetParameterValues X d (Element n l t a (c # cs))
                = (d\<lparr>params := ps'\<rparr>,
                   Inr (Node ''cwmp:SetParameterValuesResponse'' []
                          [Node ''Status'' [] [Text ''0'']]))
             \<and> map fst ps' = map fst (params d)
             \<and> map (\<lambda>kv. writable (snd kv)) ps' = map (\<lambda>kv. writable (snd kv)) (params d)
             \<and> (\<forall>k. map_of ps' k = assign (assigned X (el_children c) k) (map_of (params d) k))"
proof -
  note w = setParameterValues_wellformed[OF assms, of X]
  obtain ps' where ps': "setParameterValues X (params d) (el_children c) = (ps', None)"
    using w by (cases "setParameterValues X (params d) (el_children c)") auto
  have "SetParameterValues X d (Element n l t a (c # cs))
          = (d\<lparr>params := ps'\<rparr>,
             Inr (Node ''cwmp:SetParameterValuesResponse'' [] [Node ''Status'' [] [Text ''0'']]))"
    by (simp add: SetParameterValues_def ps')
  moreover have "map fst ps' = map fst (params d)" using w ps' by simp
  moreover have "map (\<lambda>kv. writable (snd kv)) ps' = map (\<lambda>kv. writable (snd kv)) (params d)"
    using w ps' by simp
  moreover have "\<forall>k. map_of ps' k = assign (assigned X (el_children c) k) (map_of (params d) k)"
    using w ps' by simp
  ultimately show ?thesis by blast
qed

text \<open>
  The theorem at work on \<open>deviceA\<close>: the parameter \<open>A.1.X\<close> is not writable, and the
  request gives it the value 7 and the type \<open>xsd:unsignedInt\<close>.
\<close>

theorem C10_SetParameterValues_frame_witness:
  "list_all (wellformed_struct (params deviceA))
     (el_children (Element ''ParameterList'' ''ParameterList'' [] []
                     [valueStruct ''A.1.X'' ''7'' ''xsd:unsignedInt'']))
   \<and> map_of (params deviceA) ''A.1.X'' = Some (leaf False ''5'' ''xsd:int'')
   \<and> (\<exists>ps'. SetParameterValues sample_ext deviceA
               (Element ''cwmp:SetParameterValues'' ''SetParameterValues'' [] []
                  [Element ''ParameterList'' ''ParameterList'' [] []
                     [valueStruct ''A.1.X'' ''7'' ''xsd:unsignedInt'']])
              = (deviceA\<lparr>params := ps'\<rparr>,
                 Inr (Node ''cwmp:SetParameterValuesResponse'' []
                        [Node ''Status'' [] [Text ''0'']]))
            \<and> map fst ps' = map fst (params deviceA)
            \<and> map_of ps' ''A.1.X'' = Some (leaf False ''7'' ''xsd:unsignedInt''))"
proof -
  let ?c = "Element ''ParameterList'' ''ParameterList'' [] []
              [valueStruct ''A.1.X'' ''7'' ''xsd:unsignedInt'']"
  have h: "list_all (wellformed_struct (params deviceA)) (el_children ?c)"
    by code_simp
  have old: "map_of (params deviceA) ''A.1.X'' = Some (leaf False ''5'' ''xsd:int'')"
    by code_simp
  have new: "assign (assigned sample_ext (el_children ?c) ''A.1.X'')
               (map_of (params deviceA) ''A.1.X'')
             = Some (leaf False ''7'' ''xsd:unsignedInt'')"
    by code_simp
  from C10_SetParameterValues_frame[OF h, of sample_ext
      "''cwmp:SetParameterValues''" "''SetParameterValues''" "[]" "[]" "[]"]
  obtain ps' where
    "SetParameterValues sample_ext deviceA
       (Element ''cwmp:SetParameterValues'' ''SetParameterValues'' [] [] [?c])
     = (deviceA\<lparr>params := ps'\<rparr>,
        Inr (Node ''cwmp:SetParameterValuesResponse'' [] [Node ''Status'' [] [Text ''0'']]))"
    and "map fst ps' = map fst (params deviceA)"
    and "map_of ps' ''A.1.X''
         = assign (assigned sample_ext (el_children ?c) ''A.1.X'')
             (map_of (params deviceA) ''A.1.X'')"
    by blast
  with h old new show ?thesis by auto
qed

text \<open>
  C10 as stated fails on a request that names the existing parameter \<open>A.1.X\<close> with a
  \<open>Value\<close> that has no \<open>type\<close> attribute: the value is written, the handler throws at
  the second assignment, and there is no response. Without a \<open>Value\<close> child the
  handler throws before it writes.
\<close>

theorem C10_counterexample:
  "map_of (params deviceA) ''A.1.X'' = Some (leaf False ''5'' ''xsd:int'')
   \<and> SetParameterValues sample_ext deviceA
       (Element ''cwmp:SetParameterValues'' ''SetParameterValues'' [] []
          [Element ''ParameterList'' ''ParameterList'' [] []
             [Element ''ParameterValueStruct'' ''ParameterValueStruct'' [] []
                [el ''Name'' ''A.1.X'', el ''Value'' ''7'']]])
     = (deviceA\<lparr>params :=
                  [(''A.Enable'', leaf True ''1'' ''xsd:boolean''),
                   (''A.1.'', objectNode),
                   (''A.1.X'', leaf False ''7'' ''xsd:int'')]\<rparr>,
        Inl TypeError)
   \<and> SetParameterValues sample_ext deviceA
       (Element ''cwmp:SetParameterValues'' ''SetParameterValues'' [] []
          [Element ''ParameterList'' ''ParameterList'' [] []
             [Element ''ParameterValueStruct'' ''ParameterValueStruct'' [] []
                [el ''Name'' ''A.1.X'']]])
     = (deviceA, Inl TypeError)"
  by (simp add: SetParameterValues_def setParameterValue_def template_def deviceA_def
      initial_device_def leaf_def objectNode_def el_def sample_ext_def Let_def)

text \<open>The definitions that a run of the model on the sample inputs unfolds.\<close>

lemmas sample_defs =
  initial_sim_def deviceA_def initial_device_def sample_ext_def rpc_def el_def envelope_def
  firmwareDownload_def basic401_def digest401_def ok200_def transfer1_def leaf_def
  objectNode_def soapEnvelope_def notReadyFault_def

lemmas download_defs =
  Download_def new_dwInfo_def validFileTypes_def firmware_def downloadFile_def
  downloadResponse_def template_def null_template_def emit_def startsWith_def
  createCwmpFault_def queueTransferComplete_def scheduleTransferComplete_def setTimeout_def
  transferCompleteDelayMs_def downloadFile_response_def Let_def

lemmas session_defs =
  handleMethod_def cpeRequest_def closeSession_def getRequestIdAndBody_def methods_def
  respondWith_def createSoapDocument_def NAMESPACES_def sendRequest_def
  getAuthorizationHeader_def createFaultResponse_def encode_def informInterval_def
  startSession_def fire_def connectionRequest_def inform_def deviceIdNode_def
  eventStruct_def splitEvents_def eventCode_def transferComplete_def clearTimeout_def
  callback_def

lemma match_scheme_basic: "match_scheme ''basic'' ''Basic realm=files'' = Some ''realm=files''"
  by code_simp

lemma challenged_basic:
  "challenged X dw \<lparr>statusCode = 401, www_authenticate = Some ''Basic realm=files'',
                     set_cookie = None, body = []\<rparr>
   = (dw\<lparr>cookies := Some [],
         authHeader := Some (''Basic '' @ base64 X (null_template (dw_username dw) @ '':''
                                                    @ null_template (dw_password dw))),
         attempts := attempts dw + 1\<rparr>, True)"
  by (simp add: challenged_def match_scheme_basic Let_def)

lemma count_INFORM_PARAMS: "String_nat (length INFORM_PARAMS) = ''16''"
  by code_simp

lemma parseDigestHeader_sample:
  "parseDigestHeader ''Digest realm=\"r\", nonce=\"n\", qop=\"auth\", algorithm=MD5''
   = [(''realm'', ''r''), (''nonce'', ''n''), (''qop'', ''auth''), (''algorithm'', ''MD5'')]"
  by code_simp

subsection \<open>Download\<close>

text \<open>
  C9. A \<open>Download\<close> request for a firmware image that has no \<open>URL\<close> element, on a
  device with no download in progress: the handler sets \<open>downloadInProgress\<close> and then
  throws a \<open>TypeError\<close> at \<open>dwInfo.url.startsWith\<close>. The callback is not called:
  \<open>handleMethod\<close> ends with the error and has posted nothing, and the flag stays set.
\<close>

theorem C9_Download_without_URL_throws:
  "downloadInProgress (device (initial_sim deviceA)) = False
   \<and> Download sample_ext (initial_sim deviceA)
       (rpc ''Download'' [el ''CommandKey'' ''fw1'', el ''FileType'' ''1 Firmware Upgrade Image''])
     = ((initial_sim deviceA)\<lparr>device := deviceA\<lparr>downloadInProgress := True\<rparr>\<rparr>, Inl TypeError)
   \<and> handleMethod sample_ext (initial_sim deviceA)
       (Some (envelope ''id1''
          [rpc ''Download''
             [el ''CommandKey'' ''fw1'', el ''FileType'' ''1 Firmware Upgrade Image'']]))
     = ((initial_sim deviceA)\<lparr>device := deviceA\<lparr>downloadInProgress := True\<rparr>\<rparr>, Some TypeError)
   \<and> wire ((initial_sim deviceA)\<lparr>device := deviceA\<lparr>downloadInProgress := True\<rparr>\<rparr>) = []"
  by (simp add: sample_defs download_defs session_defs)

text \<open>
  C1. The firmware download of \<open>firmwareDownload\<close>, whose file server answers every
  request with a \<open>401\<close> and a \<open>Basic\<close> challenge. The sixth such response finds five
  attempts made, makes the sixth, and \<open>downloadFile\<close> stops at the retry cap: the
  record with fault \<open>9010\<close> "Too many attempts" is queued, and no timer is set, so no
  \<open>TransferComplete\<close> session is scheduled; \<open>downloadInProgress\<close> stays set as well.
  A \<open>404\<close> as the first response, for comparison, queues its record and sets the timer
  of 500 ms.
\<close>

theorem C1_retry_cap_schedules_no_session:
  "pendingTransfers
     (fst (rechallenged sample_ext
             (fst (Download sample_ext (initial_sim deviceA) firmwareDownload))
             (Some ''fw1'') ''2026-01-01T00:00:00.000Z'' Http
             (download_args sample_ext (el_children firmwareDownload) new_dwInfo)
             (replicate 6 basic401)))
   = [\<lparr>t_commandKey = Some ''fw1'', t_startTime = ''2026-01-01T00:00:00.000Z'',
       faultCode = ''9010'', faultString = ''Too many attempts''\<rparr>]
   \<and> timers
       (fst (rechallenged sample_ext
               (fst (Download sample_ext (initial_sim deviceA) firmwareDownload))
               (Some ''fw1'') ''2026-01-01T00:00:00.000Z'' Http
               (download_args sample_ext (el_children firmwareDownload) new_dwInfo)
               (replicate 6 basic401)))
     = []
   \<and> downloadInProgress (device
       (fst (rechallenged sample_ext
               (fst (Download sample_ext (initial_sim deviceA) firmwareDownload))
               (Some ''fw1'') ''2026-01-01T00:00:00.000Z'' Http
               (download_args sample_ext (el_children firmwareDownload) new_dwInfo)
               (replicate 6 basic401))))
   \<and> length (filter (\<lambda>e. e = Request_destroyed) (wire
       (fst (rechallenged sample_ext
               (fst (Download sample_ext (initial_sim deviceA) firmwareDownload))
               (Some ''fw1'') ''2026-01-01T00:00:00.000Z'' Http
               (download_args sample_ext (el_children firmwareDownload) new_dwInfo)
               (replicate 6 basic401))))) = 6
   \<and> timers
       (fst (downloadFile_response sample_ext
               (fst (Download sample_ext (initial_sim deviceA) firmwareDownload))
               (Some ''fw1'') ''2026-01-01T00:00:00.000Z'' Http
               (download_args sample_ext (el_children firmwareDownload) new_dwInfo)
               (ok200\<lparr>statusCode := 404\<rparr>)))
     = [(0, Some 500, StartSession (Some ''7 TRANSFER COMPLETE''))]
   \<and> pendingTransfers
       (fst (downloadFile_response sample_ext
               (fst (Download sample_ext (initial_sim deviceA) firmwareDownload))
               (Some ''fw1'') ''2026-01-01T00:00:00.000Z'' Http
               (download_args sample_ext (el_children firmwareDownload) new_dwInfo)
               (ok200\<lparr>statusCode := 404\<rparr>)))
     = [\<lparr>t_commandKey = Some ''fw1'', t_startTime = ''2026-01-01T00:00:00.000Z'',
         faultCode = ''9010'', faultString = ''Server returned code 404''\<rparr>]"
  by (simp add: sample_defs download_defs challenged_basic eval_strings)

subsection \<open>The session\<close>

text \<open>
  C3. A connection request arrives during a session and sets \<open>pendingInform\<close>; no
  reboot is pending. When the session closes, the timer of the next session is set
  with delay 0, and its function is \<open>startSession(null)\<close>: the \<open>Inform\<close> that this
  session posts carries the event code \<open>2 PERIODIC\<close>. A connection request that
  arrives when no session runs, for comparison, sets a timer for
  \<open>startSession("6 CONNECTION REQUEST")\<close>.
\<close>

theorem C3_pending_inform_session_is_periodic:
  "pendingInform (connectionRequest (initial_sim deviceA))
   \<and> pendingReboot (device (connectionRequest (initial_sim deviceA))) = False
   \<and> snd (handleMethod sample_ext (connectionRequest (initial_sim deviceA)) None) = None
   \<and> timers (fst (handleMethod sample_ext (connectionRequest (initial_sim deviceA)) None))
     = [(0, Some 0, StartSession None)]
   \<and> nextInformTimeout
       (fst (handleMethod sample_ext (connectionRequest (initial_sim deviceA)) None))
     = Some 0
   \<and> wire (fst (fire sample_ext
                  (fst (handleMethod sample_ext (connectionRequest (initial_sim deviceA)) None))
                  (StartSession None)))
     = [Answered, Agent_destroyed,
        Posted
          \<lparr>post_body = Some (soapEnvelope ''k3x9q0ab''
             (Node ''cwmp:Inform'' []
                [Node ''DeviceId'' [] [Text [], Text [], Text [], Text []],
                 Node ''Event'' [(''soap-enc:arrayType'', ''cwmp:EventStruct[1]'')]
                   [Node ''EventStruct'' []
                      [Node ''EventCode'' [] [Text ''2 PERIODIC''],
                       Node ''CommandKey'' [] []]],
                 Node ''MaxEnvelopes'' [] [Text ''1''],
                 Node ''CurrentTime'' [] [Text ''2026-01-01T00:00:00.000Z''],
                 Node ''RetryCount'' [] [Text ''0''],
                 Node ''ParameterList''
                   [(''soap-enc:arrayType'', ''cwmp:ParameterValueStruct[16]'')] []])),
           Authorization = ''Basic base64(usertest:passtest)'', Cookie = None\<rparr>
          To_cpeRequest]
   \<and> timers (connectionRequest (fst (handleMethod sample_ext (initial_sim deviceA) None)))
     = [(1, Some 0, StartSession (Some ''6 CONNECTION REQUEST''))]"
  unfolding fire_def startSession_def inform_def count_INFORM_PARAMS
  by (simp add: sample_defs download_defs session_defs INFORM_PARAMS_def)

lemma createSoapDocument_encoded:
  "encode X rid = Some i \<Longrightarrow> createSoapDocument X rid payload = Inr (soapEnvelope i payload)"
  by (simp add: createSoapDocument_def soapEnvelope_def NAMESPACES_def)

lemma wire_sendRequest:
  "wire (sendRequest X s doc k)
   = wire s @ [Posted \<lparr>post_body = doc,
                        Authorization = snd (getAuthorizationHeader X (device s) ''POST'' (path s)),
                        Cookie = cookie (device s)\<rparr> k]"
  by (auto simp: sendRequest_def emit_def getAuthorizationHeader_def Let_def
      split: prod.splits option.splits)

text \<open>
  C2, as the code has it. Let the envelope that \<open>cpeRequest\<close> receives have a header,
  from which the request id is read and encoded. If \<open>acceptConnections\<close> is false and
  the queue of transfers is empty, \<open>cpeRequest\<close> posts the envelope with that id and
  the \<open>soap-env:Fault\<close> (fault code \<open>Client\<close>, fault string \<open>CWMP fault\<close>, and in its
  detail a \<open>cwmp:Fault\<close> with code 9002 and the string "Device not ready to accept
  requests"), with the callback that destroys the agent; and when the answer to that
  request arrives, with a status 2xx and an empty body or a body that parses, the
  agent is destroyed. If a record is queued, whatever \<open>acceptConnections\<close> is,
  \<open>cpeRequest\<close> takes the first record from the queue, sets
  \<open>transferCompleteSession\<close> and posts the envelope with that id and the
  \<open>cwmp:TransferComplete\<close> of the record, with \<open>handleMethod\<close> as the callback: no
  fault is sent.
\<close>

theorem C2_not_accepting_fault:
  assumes rb: "getRequestIdAndBody X doc = Inr (rid, b)"
    and enc: "encode X rid = Some i"
  shows "(\<not> acceptConnections s \<and> pendingTransfers s = [] \<longrightarrow>
            cpeRequest X s (Some doc)
              = (sendRequest X s (Some (soapEnvelope i (notReadyFault X))) To_destroy, None)
            \<and> wire (sendRequest X s (Some (soapEnvelope i (notReadyFault X))) To_destroy)
                = wire s @ [Posted \<lparr>post_body = Some (soapEnvelope i (notReadyFault X)),
                                    Authorization =
                                      snd (getAuthorizationHeader X (device s) ''POST'' (path s)),
                                    Cookie = cookie (device s)\<rparr> To_destroy])
       \<and> (\<forall>s' res. statusCode res div 100 = 2
                    \<and> (body res = [] \<or> parseXml X (body res) \<noteq> None) \<longrightarrow>
             snd (sendRequest_end X s' (Some (soapEnvelope i (notReadyFault X))) To_destroy res)
               = None
             \<and> wire (fst (sendRequest_end X s' (Some (soapEnvelope i (notReadyFault X)))
                            To_destroy res))
                 = wire s' @ [Agent_destroyed])
       \<and> (\<forall>t rest. pendingTransfers s = t # rest \<longrightarrow>
             cpeRequest X s (Some doc)
               = (sendRequest X
                    (s\<lparr>pendingTransfers := rest,
                       device := (device s)\<lparr>transferCompleteSession := True\<rparr>\<rparr>)
                    (Some (soapEnvelope i (transferComplete X (clock X 0) t))) To_handleMethod,
                  None)
             \<and> wire (fst (cpeRequest X s (Some doc)))
                 = wire s @ [Posted
                      \<lparr>post_body = Some (soapEnvelope i (transferComplete X (clock X 0) t)),
                       Authorization =
                         snd (getAuthorizationHeader X
                                ((device s)\<lparr>transferCompleteSession := True\<rparr>) ''POST'' (path s)),
                       Cookie = cookie (device s)\<rparr> To_handleMethod]
             \<and> pendingTransfers (fst (cpeRequest X s (Some doc))) = rest)"
proof -
  have 1: "cpeRequest X s (Some doc)
           = (sendRequest X s (Some (soapEnvelope i (notReadyFault X))) To_destroy, None)"
    if "\<not> acceptConnections s" "pendingTransfers s = []"
    using that by (simp add: cpeRequest_def rb createSoapDocument_encoded[OF enc]
        notReadyFault_def createFaultResponse_def)
  have 3: "snd (sendRequest_end X s' (Some (soapEnvelope i (notReadyFault X))) To_destroy res)
             = None
           \<and> wire (fst (sendRequest_end X s' (Some (soapEnvelope i (notReadyFault X)))
                          To_destroy res))
               = wire s' @ [Agent_destroyed]"
    if ok: "statusCode res div 100 = 2"
      and e: "body res = [] \<or> parseXml X (body res) \<noteq> None" for s' res
  proof -
    from ok have "statusCode res \<noteq> 401" by auto
    then show ?thesis
      using ok e by (auto simp: sendRequest_end_def callback_def emit_def split: option.split)
  qed
  have 4: "cpeRequest X s (Some doc)
               = (sendRequest X
                    (s\<lparr>pendingTransfers := rest,
                       device := (device s)\<lparr>transferCompleteSession := True\<rparr>\<rparr>)
                    (Some (soapEnvelope i (transferComplete X (clock X 0) t))) To_handleMethod,
                  None)"
    if "pendingTransfers s = t # rest" for t rest
    using that by (simp add: cpeRequest_def rb createSoapDocument_encoded[OF enc] Let_def)
  have 5: "wire (sendRequest X
                    (s\<lparr>pendingTransfers := rest,
                       device := (device s)\<lparr>transferCompleteSession := True\<rparr>\<rparr>) d k)
           = wire s @ [Posted
                      \<lparr>post_body = d,
                       Authorization =
                         snd (getAuthorizationHeader X
                                ((device s)\<lparr>transferCompleteSession := True\<rparr>) ''POST'' (path s)),
                       Cookie = cookie (device s)\<rparr> k]" for rest d k
    by (simp add: wire_sendRequest)
  have 6: "pendingTransfers (sendRequest X
                    (s\<lparr>pendingTransfers := rest,
                       device := (device s)\<lparr>transferCompleteSession := True\<rparr>\<rparr>) d k) = rest"
    for rest d k
    by (simp add: sendRequest_def emit_def split: prod.splits)
  show ?thesis using 1 wire_sendRequest[of X s] 3 4 5 6 by simp
qed

text \<open>
  The theorem at work: the device is in its stop window and the ACS sends an envelope
  with the id \<open>id1\<close>, once with nothing queued and once with the record \<open>transfer1\<close>
  in the queue.
\<close>

theorem C2_not_accepting_fault_witness:
  "getRequestIdAndBody sample_ext (envelope ''id1'' [])
       = Inr (Some ''id1'', Some (Element ''soap-env:Body'' ''Body'' [] [] []))
   \<and> encode sample_ext (Some ''id1'') = Some ''id1''
   \<and> \<not> acceptConnections ((initial_sim deviceA)\<lparr>acceptConnections := False\<rparr>)
   \<and> pendingTransfers ((initial_sim deviceA)\<lparr>acceptConnections := False\<rparr>) = []
   \<and> cpeRequest sample_ext ((initial_sim deviceA)\<lparr>acceptConnections := False\<rparr>)
        (Some (envelope ''id1'' []))
       = (sendRequest sample_ext ((initial_sim deviceA)\<lparr>acceptConnections := False\<rparr>)
            (Some (soapEnvelope ''id1'' (notReadyFault sample_ext))) To_destroy, None)
   \<and> wire (fst (sendRequest_end sample_ext
                  (sendRequest sample_ext ((initial_sim deviceA)\<lparr>acceptConnections := False\<rparr>)
                     (Some (soapEnvelope ''id1'' (notReadyFault sample_ext))) To_destroy)
                  (Some (soapEnvelope ''id1'' (notReadyFault sample_ext))) To_destroy ok200))
       = wire (sendRequest sample_ext ((initial_sim deviceA)\<lparr>acceptConnections := False\<rparr>)
                 (Some (soapEnvelope ''id1'' (notReadyFault sample_ext))) To_destroy)
         @ [Agent_destroyed]
   \<and> notReadyFault sample_ext
       = Node ''soap-env:Fault'' []
           [Node ''faultcode'' [] [Text ''Client''],
            Node ''faultstring'' [] [Text ''CWMP fault''],
            Node ''detail'' []
              [Node ''cwmp:Fault'' []
                 [Node ''FaultCode'' [] [Text ''9002''],
                  Node ''FaultString'' [] [Text ''Device not ready to accept requests'']]]]
   \<and> pendingTransfers ((initial_sim deviceA)\<lparr>acceptConnections := False, pendingTransfers := [transfer1]\<rparr>)
       = transfer1 # []
   \<and> cpeRequest sample_ext ((initial_sim deviceA)\<lparr>acceptConnections := False, pendingTransfers := [transfer1]\<rparr>)
        (Some (envelope ''id1'' []))
       = (sendRequest sample_ext
            ((initial_sim deviceA)
               \<lparr>acceptConnections := False, pendingTransfers := [transfer1],
                pendingTransfers := [],
                device := (device ((initial_sim deviceA)\<lparr>acceptConnections := False, pendingTransfers := [transfer1]\<rparr>))
                            \<lparr>transferCompleteSession := True\<rparr>\<rparr>)
            (Some (soapEnvelope ''id1''
                     (transferComplete sample_ext (clock sample_ext 0) transfer1)))
            To_handleMethod, None)"
proof -
  have h1: "\<not> acceptConnections ((initial_sim deviceA)\<lparr>acceptConnections := False\<rparr>)"
    by (simp add: initial_sim_def)
  have h2: "pendingTransfers ((initial_sim deviceA)\<lparr>acceptConnections := False\<rparr>) = []"
    by (simp add: initial_sim_def)
  have h3: "getRequestIdAndBody sample_ext (envelope ''id1'' [])
       = Inr (Some ''id1'', Some (Element ''soap-env:Body'' ''Body'' [] [] []))"
    by (simp add: getRequestIdAndBody_def envelope_def sample_ext_def)
  have h4: "encode sample_ext (Some ''id1'') = Some ''id1''"
    by (simp add: encode_def sample_ext_def)
  have h5: "statusCode ok200 div 100 = 2 \<and> (body ok200 = [] \<or> parseXml sample_ext (body ok200) \<noteq> None)"
    by (simp add: ok200_def)
  have h6: "notReadyFault sample_ext
       = Node ''soap-env:Fault'' []
           [Node ''faultcode'' [] [Text ''Client''],
            Node ''faultstring'' [] [Text ''CWMP fault''],
            Node ''detail'' []
              [Node ''cwmp:Fault'' []
                 [Node ''FaultCode'' [] [Text ''9002''],
                  Node ''FaultString'' [] [Text ''Device not ready to accept requests'']]]]"
    by (simp add: notReadyFault_def sample_ext_def)
  have h7: "pendingTransfers ((initial_sim deviceA)\<lparr>acceptConnections := False, pendingTransfers := [transfer1]\<rparr>)
       = transfer1 # []"
    by simp
  note t = C2_not_accepting_fault[OF h3 h4,
      of "(initial_sim deviceA)\<lparr>acceptConnections := False\<rparr>"]
  from t h1 h2 have a: "cpeRequest sample_ext ((initial_sim deviceA)\<lparr>acceptConnections := False\<rparr>)
        (Some (envelope ''id1'' []))
       = (sendRequest sample_ext ((initial_sim deviceA)\<lparr>acceptConnections := False\<rparr>)
            (Some (soapEnvelope ''id1'' (notReadyFault sample_ext))) To_destroy, None)"
    by blast
  from t h5 have b: "wire (fst (sendRequest_end sample_ext
                  (sendRequest sample_ext ((initial_sim deviceA)\<lparr>acceptConnections := False\<rparr>)
                     (Some (soapEnvelope ''id1'' (notReadyFault sample_ext))) To_destroy)
                  (Some (soapEnvelope ''id1'' (notReadyFault sample_ext))) To_destroy ok200))
       = wire (sendRequest sample_ext ((initial_sim deviceA)\<lparr>acceptConnections := False\<rparr>)
                 (Some (soapEnvelope ''id1'' (notReadyFault sample_ext))) To_destroy)
         @ [Agent_destroyed]"
    by blast
  from C2_not_accepting_fault[OF h3 h4,
      of "(initial_sim deviceA)\<lparr>acceptConnections := False, pendingTransfers := [transfer1]\<rparr>"] h7
  have c: "cpeRequest sample_ext ((initial_sim deviceA)\<lparr>acceptConnections := False, pendingTransfers := [transfer1]\<rparr>)
        (Some (envelope ''id1'' []))
       = (sendRequest sample_ext
            ((initial_sim deviceA)
               \<lparr>acceptConnections := False, pendingTransfers := [transfer1],
                pendingTransfers := [],
                device := (device ((initial_sim deviceA)\<lparr>acceptConnections := False, pendingTransfers := [transfer1]\<rparr>))
                            \<lparr>transferCompleteSession := True\<rparr>\<rparr>)
            (Some (soapEnvelope ''id1''
                     (transferComplete sample_ext (clock sample_ext 0) transfer1)))
            To_handleMethod, None)"
    by blast
  from h1 h2 h3 h4 a b h6 h7 c show ?thesis by blast
qed

text \<open>
  C2 as stated fails when a transfer record is queued: \<open>acceptConnections\<close> is false,
  and the envelope is answered with the \<open>TransferComplete\<close> of the record and the
  callback \<open>handleMethod\<close>; no fault is sent. An envelope without a header makes
  \<open>cpeRequest\<close> throw. And \<open>handleMethod\<close>, which receives the envelopes that follow
  the first of a session, does not read \<open>acceptConnections\<close>: after a \<open>Reboot\<close>
  request has opened the stop window, a \<open>FactoryReset\<close> request in the same session is
  answered with its response.
\<close>

theorem C2_counterexample:
  "acceptConnections
     ((initial_sim deviceA)\<lparr>acceptConnections := False, pendingTransfers := [transfer1]\<rparr>)
     = False
   \<and> cpeRequest sample_ext
       ((initial_sim deviceA)\<lparr>acceptConnections := False, pendingTransfers := [transfer1]\<rparr>)
       (Some (envelope ''id1'' []))
     = ((initial_sim deviceA)
          \<lparr>device := deviceA\<lparr>transferCompleteSession := True\<rparr>,
           acceptConnections := False,
           wire :=
             [Posted
                \<lparr>post_body = Some (soapEnvelope ''id1''
                   (Node ''cwmp:TransferComplete'' []
                      [Node ''CommandKey'' [] [Text ''fw1''],
                       Node ''StartTime'' [] [Text ''2026-01-01T00:00:00.000Z''],
                       Node ''CompleteTime'' [] [Text ''2026-01-01T00:00:00.000Z'']])),
                 Authorization = ''Basic base64(usertest:passtest)'', Cookie = None\<rparr>
                To_handleMethod]\<rparr>, None)
   \<and> cpeRequest sample_ext ((initial_sim deviceA)\<lparr>acceptConnections := False\<rparr>)
       (Some (Element [] [] [] []
                [Element ''soap-env:Envelope'' ''Envelope'' [] []
                   [Element ''soap-env:Body'' ''Body'' [] [] []]]))
     = ((initial_sim deviceA)\<lparr>acceptConnections := False\<rparr>, Some TypeError)
   \<and> acceptConnections
       (fst (handleMethod sample_ext (initial_sim deviceA)
               (Some (envelope ''id1'' [rpc ''Reboot'' []]))))
     = False
   \<and> wire (fst (handleMethod sample_ext
                  (fst (handleMethod sample_ext (initial_sim deviceA)
                          (Some (envelope ''id1'' [rpc ''Reboot'' []]))))
                  (Some (envelope ''id2'' [rpc ''FactoryReset'' []]))))
     = [Posted
          \<lparr>post_body = Some (soapEnvelope ''id1'' (Node ''cwmp:RebootResponse'' [] [Text []])),
           Authorization = ''Basic base64(usertest:passtest)'', Cookie = None\<rparr>
          To_handleMethod,
        Posted
          \<lparr>post_body =
             Some (soapEnvelope ''id2'' (Node ''cwmp:FactoryResetResponse'' [] [Text []])),
           Authorization = ''Basic base64(usertest:passtest)'', Cookie = None\<rparr>
          To_handleMethod]"
  by (simp add: sample_defs download_defs session_defs Reboot_def FactoryReset_def
      stopSession_def sessionFactoryResetDelayMs_def)


subsection \<open>The transport\<close>

lemma toLowerCase_Digest: "toLowerCase ''Digest'' = ''digest''"
  by code_simp

lemma Digest_lower: "startsWith h ''Digest'' \<Longrightarrow> startsWith (toLowerCase h) ''digest''"
proof -
  assume "startsWith h ''Digest''"
  then obtain zs where "h = ''Digest'' @ zs" by (auto simp: startsWith_def prefix_def)
  then have "toLowerCase h = toLowerCase ''Digest'' @ toLowerCase zs"
    by (simp only: toLowerCase_def map_append)
  then show ?thesis by (simp add: toLowerCase_Digest startsWith_def)
qed

lemma digest_sample_lower:
  "startsWith (toLowerCase ''Digest realm=\"r\", nonce=\"n\", qop=\"auth\", algorithm=MD5'')
     ''digest''"
  by (rule Digest_lower) (simp add: startsWith_def)

text \<open>
  C6, as the code has it. Let the response to a request, posted with the document
  \<open>doc\<close> and the callback \<open>k\<close>, have status 401. If its \<open>WWW-Authenticate\<close> header
  starts with \<open>Digest\<close>, the parsed challenge is stored in \<open>digestParams\<close>, the nonce
  count is set to 0 and \<open>sendRequest\<close> runs again with the same document and
  callback: the request it posts has the document \<open>doc\<close> as its body, and its
  \<open>Authorization\<close> header is the digest for the nonce count 1 when the device has a
  user name and a password, and is empty, with the nonce count left at 0, when one of
  them is empty. If there is no such header, or it does not start with \<open>digest\<close> in
  whatever case, the error is thrown and the state is as it was.
\<close>

theorem C6_digest_challenge_retry:
  assumes st: "statusCode res = 401"
  shows "(\<forall>h. www_authenticate res = Some h \<and> startsWith h ''Digest'' \<longrightarrow>
            sendRequest_end X s doc k res
              = (sendRequest X
                   (s\<lparr>device := (device s)\<lparr>digestParams := Some (parseDigestHeader h),
                                             nonceCount := Some 0\<rparr>\<rparr>) doc k, None)
            \<and> digestParams (device (fst (sendRequest_end X s doc k res)))
                = Some (parseDigestHeader h)
            \<and> wire (fst (sendRequest_end X s doc k res))
                = wire s @ [Posted
                     \<lparr>post_body = doc,
                      Authorization =
                        (if username (device s) = [] \<or> password (device s) = [] then []
                         else generateDigestAuth X (username (device s)) (password (device s))
                                ''POST'' (if path s = [] then ''/'' else path s)
                                (parseDigestHeader h) (Some 1)),
                      Cookie = cookie (device s)\<rparr> k]
            \<and> nonceCount (device (fst (sendRequest_end X s doc k res)))
                = (if username (device s) = [] \<or> password (device s) = [] then Some 0
                   else Some 1))
       \<and> ((case www_authenticate res of
              None \<Rightarrow> True
            | Some h \<Rightarrow> \<not> startsWith (toLowerCase h) ''digest'') \<longrightarrow>
            sendRequest_end X s doc k res
              = (s, Some (Error (''Authentication failed with status 401: '' @ body res))))"
proof -
  have a: "\<And>h. www_authenticate res = Some h \<Longrightarrow> startsWith h ''Digest'' \<Longrightarrow>
            sendRequest_end X s doc k res
              = (sendRequest X
                   (s\<lparr>device := (device s)\<lparr>digestParams := Some (parseDigestHeader h),
                                             nonceCount := Some 0\<rparr>\<rparr>) doc k, None)"
    using st by (simp add: sendRequest_end_def Digest_lower)
  have b: "\<And>h. digestParams (device (sendRequest X
                   (s\<lparr>device := (device s)\<lparr>digestParams := Some (parseDigestHeader h),
                                             nonceCount := Some 0\<rparr>\<rparr>) doc k))
                = Some (parseDigestHeader h)"
    by (simp add: sendRequest_def getAuthorizationHeader_def emit_def Let_def)
  have c: "\<And>h. wire (sendRequest X
                   (s\<lparr>device := (device s)\<lparr>digestParams := Some (parseDigestHeader h),
                                             nonceCount := Some 0\<rparr>\<rparr>) doc k)
                = wire s @ [Posted
                     \<lparr>post_body = doc,
                      Authorization =
                        (if username (device s) = [] \<or> password (device s) = [] then []
                         else generateDigestAuth X (username (device s)) (password (device s))
                                ''POST'' (if path s = [] then ''/'' else path s)
                                (parseDigestHeader h) (Some 1)),
                      Cookie = cookie (device s)\<rparr> k]"
    by (simp add: sendRequest_def getAuthorizationHeader_def emit_def Let_def)
  have d: "\<And>h. nonceCount (device (sendRequest X
                   (s\<lparr>device := (device s)\<lparr>digestParams := Some (parseDigestHeader h),
                                             nonceCount := Some 0\<rparr>\<rparr>) doc k))
                = (if username (device s) = [] \<or> password (device s) = [] then Some 0
                   else Some 1)"
    by (simp add: sendRequest_def getAuthorizationHeader_def emit_def Let_def)
  have e: "(case www_authenticate res of
              None \<Rightarrow> True
            | Some h \<Rightarrow> \<not> startsWith (toLowerCase h) ''digest'') \<Longrightarrow>
            sendRequest_end X s doc k res
              = (s, Some (Error (''Authentication failed with status 401: '' @ body res)))"
    using st by (auto simp: sendRequest_end_def split: option.splits)
  show ?thesis using a b c d e by simp
qed

text \<open>
  The theorem at work: the first request of a session is answered with the digest
  challenge of \<open>digest401\<close>, and the request is posted again with the header for
  \<open>nc=00000001\<close>; a \<open>Basic\<close> challenge from the ACS is fatal.
\<close>

theorem C6_digest_challenge_retry_witness:
  "statusCode digest401 = 401
   \<and> www_authenticate digest401
       = Some ''Digest realm=\"r\", nonce=\"n\", qop=\"auth\", algorithm=MD5''
   \<and> startsWith ''Digest realm=\"r\", nonce=\"n\", qop=\"auth\", algorithm=MD5'' ''Digest''
   \<and> wire (fst (sendRequest_end sample_ext (initial_sim deviceA) (Some (Text ''inform''))
                  To_cpeRequest digest401))
       = [Posted
            \<lparr>post_body = Some (Text ''inform''),
             Authorization =
               ''Digest username=\"usertest\", realm=\"r\", nonce=\"n\", uri=\"/acs\", response=\"md5(md5(usertest:r:passtest):n:00000001:0a1b2c3d4e5f60718293a4b5c6d7e8f9:auth:md5(POST:/acs))\", algorithm=MD5, qop=auth, nc=00000001, cnonce=\"0a1b2c3d4e5f60718293a4b5c6d7e8f9\"'',
             Cookie = None\<rparr>
            To_cpeRequest]
   \<and> nonceCount (device (fst (sendRequest_end sample_ext (initial_sim deviceA)
                                 (Some (Text ''inform'')) To_cpeRequest digest401)))
       = Some 1
   \<and> statusCode basic401 = 401
   \<and> sendRequest_end sample_ext (initial_sim deviceA) (Some (Text ''inform'')) To_cpeRequest
        basic401
       = (initial_sim deviceA, Some (Error ''Authentication failed with status 401: ''))"
proof -
  let ?h = "''Digest realm=\"r\", nonce=\"n\", qop=\"auth\", algorithm=MD5''"
  have h1: "statusCode digest401 = 401" by (simp add: digest401_def)
  have h2: "www_authenticate digest401 = Some ?h" by (simp add: digest401_def)
  have h3: "startsWith ?h ''Digest''" by (simp add: startsWith_def)
  have h4: "statusCode basic401 = 401" by (simp add: basic401_def)
  have h5: "(case www_authenticate basic401 of
               None \<Rightarrow> True
             | Some h \<Rightarrow> \<not> startsWith (toLowerCase h) ''digest'')"
    by code_simp
  have ev: "wire (initial_sim deviceA) @ [Posted
              \<lparr>post_body = Some (Text ''inform''),
               Authorization =
                 (if username (device (initial_sim deviceA)) = []
                     \<or> password (device (initial_sim deviceA)) = [] then []
                  else generateDigestAuth sample_ext (username (device (initial_sim deviceA)))
                         (password (device (initial_sim deviceA))) ''POST''
                         (if path (initial_sim deviceA) = [] then ''/''
                          else path (initial_sim deviceA))
                         (parseDigestHeader ?h) (Some 1)),
               Cookie = cookie (device (initial_sim deviceA))\<rparr> To_cpeRequest]
       = [Posted
            \<lparr>post_body = Some (Text ''inform''),
             Authorization =
               ''Digest username=\"usertest\", realm=\"r\", nonce=\"n\", uri=\"/acs\", response=\"md5(md5(usertest:r:passtest):n:00000001:0a1b2c3d4e5f60718293a4b5c6d7e8f9:auth:md5(POST:/acs))\", algorithm=MD5, qop=auth, nc=00000001, cnonce=\"0a1b2c3d4e5f60718293a4b5c6d7e8f9\"'',
             Cookie = None\<rparr>
            To_cpeRequest]"
    by (simp add: initial_sim_def deviceA_def initial_device_def sample_ext_def
        parseDigestHeader_sample generateDigestAuth_def ncStr_def prop_or_def Let_def
        eval_strings)
  have ev2: "(if username (device (initial_sim deviceA)) = []
                 \<or> password (device (initial_sim deviceA)) = [] then Some 0 else Some (1::nat))
             = Some 1"
    by (simp add: initial_sim_def deviceA_def initial_device_def)
  note t = C6_digest_challenge_retry[OF h1, of sample_ext "initial_sim deviceA"
      "Some (Text ''inform'')" To_cpeRequest]
  from t h2 h3 have a: "wire (fst (sendRequest_end sample_ext (initial_sim deviceA)
                          (Some (Text ''inform'')) To_cpeRequest digest401))
       = wire (initial_sim deviceA) @ [Posted
              \<lparr>post_body = Some (Text ''inform''),
               Authorization =
                 (if username (device (initial_sim deviceA)) = []
                     \<or> password (device (initial_sim deviceA)) = [] then []
                  else generateDigestAuth sample_ext (username (device (initial_sim deviceA)))
                         (password (device (initial_sim deviceA))) ''POST''
                         (if path (initial_sim deviceA) = [] then ''/''
                          else path (initial_sim deviceA))
                         (parseDigestHeader ?h) (Some 1)),
               Cookie = cookie (device (initial_sim deviceA))\<rparr> To_cpeRequest]"
    by blast
  from t h2 h3 have b: "nonceCount (device (fst (sendRequest_end sample_ext (initial_sim deviceA)
                                 (Some (Text ''inform'')) To_cpeRequest digest401)))
       = (if username (device (initial_sim deviceA)) = []
             \<or> password (device (initial_sim deviceA)) = [] then Some 0 else Some 1)"
    by blast
  from C6_digest_challenge_retry[OF h4, of sample_ext "initial_sim deviceA"
      "Some (Text ''inform'')" To_cpeRequest] h5
  have c: "sendRequest_end sample_ext (initial_sim deviceA) (Some (Text ''inform''))
             To_cpeRequest basic401
       = (initial_sim deviceA,
          Some (Error (''Authentication failed with status 401: '' @ body basic401)))"
    by blast
  have bb: "body basic401 = []" by (simp add: basic401_def)
  from h1 h2 h3 h4 a b c show ?thesis
    unfolding ev ev2 bb by simp
qed

text \<open>
  C6 as stated fails on the device that \<open>start\<close> makes of the data model \<open>modelP\<close>,
  whose password is empty: the challenge is stored and the request posted again, but
  with an empty \<open>Authorization\<close> header, and the nonce count stays 0.
\<close>

theorem C6_counterexample:
  "start_device modelP ''SN1'' ''00:11:22:33:44:55'' = Inr deviceP
   \<and> password deviceP = []
   \<and> statusCode digest401 = 401
   \<and> www_authenticate digest401
       = Some ''Digest realm=\"r\", nonce=\"n\", qop=\"auth\", algorithm=MD5''
   \<and> sendRequest_end sample_ext (initial_sim deviceP) (Some (Text ''inform'')) To_cpeRequest
        digest401
     = ((initial_sim deviceP)
          \<lparr>device := deviceP\<lparr>digestParams :=
                        Some [(''realm'', ''r''), (''nonce'', ''n''), (''qop'', ''auth''),
                              (''algorithm'', ''MD5'')],
                      nonceCount := Some 0\<rparr>,
           wire := [Posted \<lparr>post_body = Some (Text ''inform''), Authorization = [],
                            Cookie = None\<rparr> To_cpeRequest]\<rparr>, None)"
  by (simp add: sendRequest_end_def sendRequest_def getAuthorizationHeader_def emit_def
      start_device_def set_value_def modelP_def deviceP_def leaf_def initial_device_def
      initial_sim_def digest401_def Let_def digest_sample_lower parseDigestHeader_sample)

end
